theory Spec2Isabelle
  imports Complex_Main "HOL-Library.AList"
begin

section \<open>JavaScript values\<close>

text \<open>
  The panel is TypeScript whose table rows, reducer arguments and store entries are typed
  \<open>any\<close>, so the model works over an explicit datatype of JavaScript values.
  Numbers are modelled by their exact value (rounding to IEEE doubles is not modelled; \<open>+0\<close>
  and \<open>-0\<close> coincide). Objects and arrays carry the reference (heap identity) that \<open>===\<close>
  compares; a function is a reference with its own properties. A property read on a value
  finds own properties only; the members every plain object inherits from
  \<open>Object.prototype\<close> are modelled where the store is read (see \<open>state_get\<close>). Symbols are
  not modelled.
\<close>

datatype jsnum = NaN | PosInf | NegInf | Fin rat

datatype jsval =
    JUndefined
  | JNull
  | JBool bool
  | JNum jsnum
  | JStr string
  | JBigInt int
  | JObject nat "(string \<times> jsval) list"
  | JArray nat "jsval list"
  | JFunction nat "(string \<times> jsval) list"

datatype jserror = TypeError | SyntaxError | RangeError | Error string

text \<open>The \<open>typeof\<close> operator; \<open>typeof null\<close> is \<open>"object"\<close>.\<close>

fun typeof :: "jsval \<Rightarrow> string" where
  "typeof JUndefined = ''undefined''"
| "typeof JNull = ''object''"
| "typeof (JBool _) = ''boolean''"
| "typeof (JNum _) = ''number''"
| "typeof (JStr _) = ''string''"
| "typeof (JBigInt _) = ''bigint''"
| "typeof (JObject _ _) = ''object''"
| "typeof (JArray _ _) = ''object''"
| "typeof (JFunction _ _) = ''function''"

text \<open>Strict equality \<open>===\<close>: no coercion, \<open>NaN\<close> differs from itself, objects by reference.\<close>

fun strict_eq :: "jsval \<Rightarrow> jsval \<Rightarrow> bool" where
  "strict_eq JUndefined JUndefined = True"
| "strict_eq JNull JNull = True"
| "strict_eq (JBool a) (JBool b) = (a = b)"
| "strict_eq (JNum a) (JNum b) = (a \<noteq> NaN \<and> a = b)"
| "strict_eq (JStr a) (JStr b) = (a = b)"
| "strict_eq (JBigInt a) (JBigInt b) = (a = b)"
| "strict_eq (JObject r _) (JObject r' _) = (r = r')"
| "strict_eq (JArray r _) (JArray r' _) = (r = r')"
| "strict_eq (JFunction r _) (JFunction r' _) = (r = r')"
| "strict_eq _ _ = False"

text \<open>Truthiness, as tested by \<open>if (v)\<close>, \<open>!v\<close> and \<open>Boolean(v)\<close>.\<close>

fun truthy :: "jsval \<Rightarrow> bool" where
  "truthy JUndefined = False"
| "truthy JNull = False"
| "truthy (JBool b) = b"
| "truthy (JNum n) = (n \<noteq> NaN \<and> n \<noteq> Fin 0)"
| "truthy (JStr s) = (s \<noteq> [])"
| "truthy (JBigInt i) = (i \<noteq> 0)"
| "truthy (JObject _ _) = True"
| "truthy (JArray _ _) = True"
| "truthy (JFunction _ _) = True"

text \<open>A property key that is a canonical array index (\<open>"0"\<close>, \<open>"17"\<close>, not \<open>"017"\<close>).\<close>

definition is_digit :: "char \<Rightarrow> bool" where
  "is_digit c = (48 \<le> (of_char c :: nat) \<and> (of_char c :: nat) \<le> 57)"

definition array_index :: "string \<Rightarrow> nat option" where
  "array_index k =
     (if k \<noteq> [] \<and> list_all is_digit k \<and> (k = ''0'' \<or> hd k \<noteq> CHR ''0'')
      then Some (foldl (\<lambda>n c. 10 * n + (of_char c - 48)) 0 k)
      else None)"

text \<open>
  The property read \<open>v[k]\<close>. Reading a property of \<open>undefined\<close> or \<open>null\<close> throws a
  TypeError; a missing property reads as \<open>undefined\<close>.
\<close>

fun get_prop :: "jsval \<Rightarrow> string \<Rightarrow> jserror + jsval" where
  "get_prop JUndefined k = Inl TypeError"
| "get_prop JNull k = Inl TypeError"
| "get_prop (JObject r ps) k = Inr (case map_of ps k of Some v \<Rightarrow> v | None \<Rightarrow> JUndefined)"
| "get_prop (JArray r xs) k =
     Inr (if k = ''length'' then JNum (Fin (of_nat (length xs)))
          else case array_index k of
                 Some i \<Rightarrow> if i < length xs then xs ! i else JUndefined
               | None \<Rightarrow> JUndefined)"
| "get_prop (JStr s) k =
     Inr (if k = ''length'' then JNum (Fin (of_nat (length s)))
          else case array_index k of
                 Some i \<Rightarrow> if i < length s then JStr [s ! i] else JUndefined
               | None \<Rightarrow> JUndefined)"
| "get_prop (JBool _) k = Inr JUndefined"
| "get_prop (JNum _) k = Inr JUndefined"
| "get_prop (JBigInt _) k = Inr JUndefined"
| "get_prop (JFunction r ps) k = Inr (case map_of ps k of Some v \<Rightarrow> v | None \<Rightarrow> JUndefined)"

section \<open>The store slice (store/spacetime-slice.ts)\<close>

text \<open>
  \<open>SpacetimeState\<close> is one object: the four session keys and, in the same namespace, one
  key per table. It is modelled as the list of its own properties in insertion order.
  A reducer that throws leaves the store as it was and is modelled by \<open>Inl\<close>.

  The store is a plain object, so \<open>state[name]\<close> also finds what it inherits from
  \<open>Object.prototype\<close>: eleven built-in functions, and under \<open>__proto__\<close> the prototype object
  itself. All of them are truthy and none is an array. Of each built-in only its name and
  length are listed; the references below 12 are theirs.
\<close>

type_synonym SpacetimeState = "(string \<times> jsval) list"

definition initialState :: SpacetimeState where
  "initialState =
     [(''connectionStatus'', JStr ''disconnected''),
      (''connection'', JNull),
      (''identity'', JNull),
      (''error'', JNull)]"

definition builtin :: "nat \<Rightarrow> string \<Rightarrow> nat \<Rightarrow> jsval" where
  "builtin r n len = JFunction r [(''length'', JNum (Fin (of_nat len))), (''name'', JStr n)]"

definition Object_prototype_members :: "(string \<times> jsval) list" where
  "Object_prototype_members =
     [(''constructor'', builtin 1 ''Object'' 1),
      (''__defineGetter__'', builtin 2 ''__defineGetter__'' 2),
      (''__defineSetter__'', builtin 3 ''__defineSetter__'' 2),
      (''hasOwnProperty'', builtin 4 ''hasOwnProperty'' 1),
      (''__lookupGetter__'', builtin 5 ''__lookupGetter__'' 1),
      (''__lookupSetter__'', builtin 6 ''__lookupSetter__'' 1),
      (''isPrototypeOf'', builtin 7 ''isPrototypeOf'' 1),
      (''propertyIsEnumerable'', builtin 8 ''propertyIsEnumerable'' 1),
      (''toString'', builtin 9 ''toString'' 0),
      (''valueOf'', builtin 10 ''valueOf'' 0),
      (''toLocaleString'', builtin 11 ''toLocaleString'' 0)]"

definition inherited :: "string \<Rightarrow> jsval option" where
  "inherited k =
     (if k = ''__proto__'' then Some (JObject 0 Object_prototype_members)
      else map_of Object_prototype_members k)"

text \<open>The read \<open>state[k]\<close>: an own property, else an inherited one, else \<open>undefined\<close>.\<close>

definition state_get :: "SpacetimeState \<Rightarrow> string \<Rightarrow> jsval" where
  "state_get s k =
     (case map_of s k of
        Some v \<Rightarrow> v
      | None \<Rightarrow> (case inherited k of Some v \<Rightarrow> v | None \<Rightarrow> JUndefined))"

definition state_set :: "SpacetimeState \<Rightarrow> string \<Rightarrow> jsval \<Rightarrow> SpacetimeState" where
  "state_set s k v = AList.update k v s"

definition comparePrimaryKeys :: "jsval \<Rightarrow> jsval \<Rightarrow> string \<Rightarrow> jserror + bool" where
  "comparePrimaryKeys a b primaryKey =
     (if typeof a = ''object'' \<and> typeof b = ''object''
      then (case get_prop a primaryKey of
              Inl e \<Rightarrow> Inl e
            | Inr x \<Rightarrow> (case get_prop b primaryKey of
                          Inl e \<Rightarrow> Inl e
                        | Inr y \<Rightarrow> Inr (strict_eq x y)))
      else Inr (strict_eq a b))"

text \<open>\<open>Array.prototype.findIndex\<close>: the first index whose element satisfies the callback.\<close>

fun findIndex_from :: "('a \<Rightarrow> jserror + bool) \<Rightarrow> 'a list \<Rightarrow> nat \<Rightarrow> jserror + nat option" where
  "findIndex_from p [] i = Inr None"
| "findIndex_from p (x # xs) i =
     (case p x of
        Inl e \<Rightarrow> Inl e
      | Inr True \<Rightarrow> Inr (Some i)
      | Inr False \<Rightarrow> findIndex_from p xs (Suc i))"

definition findIndex :: "('a \<Rightarrow> jserror + bool) \<Rightarrow> 'a list \<Rightarrow> jserror + nat option" where
  "findIndex p xs = findIndex_from p xs 0"

text \<open>The callback of both searches:
  \<open>(item) => comparePrimaryKeys(item[primaryKey], primaryValue, primaryKey)\<close>.\<close>

definition row_matches :: "string \<Rightarrow> jsval \<Rightarrow> jsval \<Rightarrow> jserror + bool" where
  "row_matches primaryKey primaryValue item =
     (case get_prop item primaryKey of
        Inl e \<Rightarrow> Inl e
      | Inr v \<Rightarrow> comparePrimaryKeys v primaryValue primaryKey)"

definition setConnectionStatus :: "SpacetimeState \<Rightarrow> string \<Rightarrow> SpacetimeState" where
  "setConnectionStatus s status = state_set s ''connectionStatus'' (JStr status)"

definition setConnection :: "SpacetimeState \<Rightarrow> jsval \<Rightarrow> SpacetimeState" where
  "setConnection s conn = state_set s ''connection'' conn"

definition setIdentity :: "SpacetimeState \<Rightarrow> string \<Rightarrow> SpacetimeState" where
  "setIdentity s ident = state_set s ''identity'' (JStr ident)"

definition setError :: "SpacetimeState \<Rightarrow> string \<Rightarrow> SpacetimeState" where
  "setError s msg = state_set s ''error'' (JStr msg)"

definition clearError :: "SpacetimeState \<Rightarrow> SpacetimeState" where
  "clearError s = state_set s ''error'' JNull"

definition clearAllTables :: "SpacetimeState \<Rightarrow> SpacetimeState" where
  "clearAllTables s =
     filter (\<lambda>(key, _). \<not> (key \<noteq> ''connectionStatus'' \<and> key \<noteq> ''connection''
                               \<and> key \<noteq> ''identity'' \<and> key \<noteq> ''error'')) s"

text \<open>\<open>initializeTable\<close> allocates a new empty array; its reference is an argument.\<close>

definition initializeTable :: "SpacetimeState \<Rightarrow> string \<Rightarrow> nat \<Rightarrow> SpacetimeState" where
  "initializeTable s tableName fresh =
     (if \<not> truthy (state_get s tableName) then state_set s tableName (JArray fresh []) else s)"

text \<open>
  \<open>state[tableName] = data\<close>. Under the name \<open>__proto__\<close> the assignment goes to the
  accessor of \<open>Object.prototype\<close> and creates no own property: for an object, a function or
  \<open>null\<close> it asks to change the prototype of the draft, which Immer refuses by throwing;
  for any other value it does nothing.
\<close>

definition setTableData :: "SpacetimeState \<Rightarrow> string \<Rightarrow> jsval \<Rightarrow> jserror + SpacetimeState" where
  "setTableData s tableName data =
     (if tableName = ''__proto__''
      then (if typeof data = ''object'' \<or> typeof data = ''function''
            then Inl (Error ''[Immer] Object.setPrototypeOf() cannot be used on an Immer draft'')
            else Inr s)
      else Inr (state_set s tableName data))"

text \<open>
  \<open>push\<close>, \<open>findIndex\<close> and \<open>splice\<close> exist on arrays only: on any other truthy value the
  method is \<open>undefined\<close> and calling it throws a TypeError.
\<close>

definition insertTableRow :: "SpacetimeState \<Rightarrow> string \<Rightarrow> jsval \<Rightarrow> jserror + SpacetimeState" where
  "insertTableRow s tableName row =
     (if truthy (state_get s tableName)
      then (case state_get s tableName of
              JArray r rows \<Rightarrow> Inr (state_set s tableName (JArray r (rows @ [row])))
            | _ \<Rightarrow> Inl TypeError)
      else Inr s)"

definition updateTableRow ::
  "SpacetimeState \<Rightarrow> string \<Rightarrow> string \<Rightarrow> jsval \<Rightarrow> jsval \<Rightarrow> jserror + SpacetimeState" where
  "updateTableRow s tableName primaryKey primaryValue row =
     (if truthy (state_get s tableName)
      then (case state_get s tableName of
              JArray r rows \<Rightarrow>
                (case findIndex (row_matches primaryKey primaryValue) rows of
                   Inl e \<Rightarrow> Inl e
                 | Inr None \<Rightarrow> Inr s
                 | Inr (Some index) \<Rightarrow> Inr (state_set s tableName (JArray r (rows[index := row]))))
            | _ \<Rightarrow> Inl TypeError)
      else Inr s)"

definition deleteTableRow ::
  "SpacetimeState \<Rightarrow> string \<Rightarrow> string \<Rightarrow> jsval \<Rightarrow> jserror + SpacetimeState" where
  "deleteTableRow s tableName primaryKey primaryValue =
     (if truthy (state_get s tableName)
      then (case state_get s tableName of
              JArray r rows \<Rightarrow>
                (case findIndex (row_matches primaryKey primaryValue) rows of
                   Inl e \<Rightarrow> Inl e
                 | Inr None \<Rightarrow> Inr s
                 | Inr (Some index) \<Rightarrow>
                     Inr (state_set s tableName (JArray r (take index rows @ drop (Suc index) rows))))
            | _ \<Rightarrow> Inl TypeError)
      else Inr s)"

subsection \<open>What a table notification does (hooks/spacetime/use-table-handlers.ts)\<close>

text \<open>
  The \<open>onInsert\<close>, \<open>onUpdate\<close> and \<open>onDelete\<close> callbacks all call \<open>updateTableData\<close>,
  which reads every row of the table from the SDK's client cache, serializes them and
  dispatches \<open>setTableData\<close>: the mirror is replaced wholesale, never patched. The
  argument \<open>serializedRows\<close> is the outcome of
  \<open>processTableDataForRedux(Array.from(handle.iter()))\<close>, the rows or a throw; the cache
  belongs to the SDK. A throw, also one of the dispatch, is caught and logged. The
  reference of the new array is an argument.
\<close>

definition updateTableData ::
  "SpacetimeState \<Rightarrow> string \<Rightarrow> nat \<Rightarrow> jserror + jsval list \<Rightarrow> SpacetimeState" where
  "updateTableData s tableName fresh serializedRows =
     (case serializedRows of
        Inl e \<Rightarrow> s
      | Inr rows \<Rightarrow>
          (case setTableData s tableName (JArray fresh rows) of
             Inl e \<Rightarrow> s
           | Inr s' \<Rightarrow> s'))"

subsection \<open>The patch operations (handleTableInsert / handleTableUpdate / handleTableDelete)\<close>

text \<open>
  The hook also returns three table operations that dispatch one patching slice action
  each. The subscription callbacks above do not use them. \<open>patch\<close> is the operation that
  corresponds to an insert, update or delete of a row, and \<open>patch_all\<close> dispatches a
  sequence of them in order; a reducer that throws ends it. A \<open>notification\<close> is the
  insert, update (by key) or delete (by key) of a row, as the specification's stream has
  them.
\<close>

datatype notification = Insert jsval | Update jsval jsval | Delete jsval

definition handleTableInsert :: "SpacetimeState \<Rightarrow> string \<Rightarrow> jsval \<Rightarrow> jserror + SpacetimeState" where
  "handleTableInsert s tableName row = insertTableRow s tableName row"

definition handleTableUpdate ::
  "SpacetimeState \<Rightarrow> string \<Rightarrow> string \<Rightarrow> jsval \<Rightarrow> jsval \<Rightarrow> jserror + SpacetimeState" where
  "handleTableUpdate s tableName primaryKey primaryValue row =
     updateTableRow s tableName primaryKey primaryValue row"

definition handleTableDelete ::
  "SpacetimeState \<Rightarrow> string \<Rightarrow> string \<Rightarrow> jsval \<Rightarrow> jserror + SpacetimeState" where
  "handleTableDelete s tableName primaryKey primaryValue =
     deleteTableRow s tableName primaryKey primaryValue"

fun patch :: "string \<Rightarrow> string \<Rightarrow> SpacetimeState \<Rightarrow> notification \<Rightarrow> jserror + SpacetimeState" where
  "patch t pk s (Insert row) = handleTableInsert s t row"
| "patch t pk s (Update v row) = handleTableUpdate s t pk v row"
| "patch t pk s (Delete v) = handleTableDelete s t pk v"

fun patch_all :: "string \<Rightarrow> string \<Rightarrow> SpacetimeState \<Rightarrow> notification list \<Rightarrow> jserror + SpacetimeState" where
  "patch_all t pk s [] = Inr s"
| "patch_all t pk s (n # ns) =
     (case patch t pk s n of Inl e \<Rightarrow> Inl e | Inr s' \<Rightarrow> patch_all t pk s' ns)"

subsection \<open>The replay of the specification\<close>

text \<open>
  The specification's reading of the mirror, written from its words and not from the code:
  a collection of rows keyed by the declared primary key, where insert appends the row,
  update replaces the unique row whose primary-key value is equal and delete removes it.
  Where several rows carry the key there is no unique row and the replay is undefined
  (\<open>None\<close>).
\<close>

definition pk_of :: "string \<Rightarrow> jsval \<Rightarrow> jsval" where
  "pk_of pk row =
     (case row of
        JObject r ps \<Rightarrow> (case map_of ps pk of Some v \<Rightarrow> v | None \<Rightarrow> JUndefined)
      | _ \<Rightarrow> JUndefined)"

definition spec_locate :: "string \<Rightarrow> jsval \<Rightarrow> jsval list \<Rightarrow> nat list" where
  "spec_locate pk v rows = filter (\<lambda>i. pk_of pk (rows ! i) = v) [0..<length rows]"

fun spec_apply :: "string \<Rightarrow> jsval list \<Rightarrow> notification \<Rightarrow> jsval list option" where
  "spec_apply pk rows (Insert row) = Some (rows @ [row])"
| "spec_apply pk rows (Update v row) =
     (case spec_locate pk v rows of
        [] \<Rightarrow> Some rows
      | [i] \<Rightarrow> Some (rows[i := row])
      | _ \<Rightarrow> None)"
| "spec_apply pk rows (Delete v) =
     (case spec_locate pk v rows of
        [] \<Rightarrow> Some rows
      | [i] \<Rightarrow> Some (take i rows @ drop (Suc i) rows)
      | _ \<Rightarrow> None)"

fun spec_replay :: "string \<Rightarrow> jsval list \<Rightarrow> notification list \<Rightarrow> jsval list option" where
  "spec_replay pk rows [] = Some rows"
| "spec_replay pk rows (n # ns) =
     (case spec_apply pk rows n of None \<Rightarrow> None | Some rows' \<Rightarrow> spec_replay pk rows' ns)"

text \<open>
  Object-shaped rows, and primary-key values that are primitive (neither object-typed nor
  a function) and not \<open>NaN\<close>.
\<close>

fun is_row :: "jsval \<Rightarrow> bool" where
  "is_row (JObject _ _) = True"
| "is_row _ = False"

definition primitive_key :: "jsval \<Rightarrow> bool" where
  "primitive_key v = (typeof v \<noteq> ''object'' \<and> typeof v \<noteq> ''function'' \<and> v \<noteq> JNum NaN)"

fun wf_notification :: "notification \<Rightarrow> bool" where
  "wf_notification (Insert row) = is_row row"
| "wf_notification (Update v row) = (primitive_key v \<and> is_row row)"
| "wf_notification (Delete v) = primitive_key v"

subsection \<open>Example stores\<close>

definition example_row :: "nat \<Rightarrow> int \<Rightarrow> jsval" where
  "example_row r n = JObject r [(''id'', JNum (Fin (of_int n))), (''name'', JStr ''x'')]"

definition example_state :: SpacetimeState where
  "example_state = initialState @ [(''user'', JArray 10 [example_row 1 1, example_row 2 2])]"


text \<open>A row whose key is \<open>null\<close>.\<close>

definition null_key_row :: jsval where
  "null_key_row = JObject 3 [(''id'', JNull), (''name'', JStr ''x'')]"

section \<open>The connection state machine (the useSpacetimeDB hook)\<close>

text \<open>
  The hook is event driven: \<open>connect\<close> and \<open>disconnect\<close> are called by the host, the
  session builder later calls \<open>onConnect\<close>, \<open>onConnectError\<close> or \<open>onDisconnect\<close>, and
  \<open>setTimeout\<close> callbacks run when their delay has passed. The model keeps the store,
  the mutable connection-state ref, the persisted token, a clock in milliseconds and the
  pending timers, and gives one function per handler.
\<close>

record SpacetimeConfig =
  uri :: string
  moduleName :: string
  maxRetries :: rat
  subscriptionDelay :: rat
  retryBackoffMultiplier :: rat
  generatedPath :: string

definition default_config :: SpacetimeConfig where
  "default_config =
     \<lparr>uri = ''ws://127.0.0.1:3000'', moduleName = ''blockdrop-main'', maxRetries = 3,
      subscriptionDelay = 500, retryBackoffMultiplier = 2, generatedPath = ''./generated''\<rparr>"

text \<open>The ref of \<open>useConnectionState\<close>.\<close>

record ConnectionState =
  isConnecting :: bool
  isIntentionalDisconnect :: bool

text \<open>
  What a pending \<open>setTimeout\<close> will run. A retry calls the \<open>connect\<close> closure that
  scheduled it, so it carries that closure's captured \<open>isConnected\<close> next to the retry count.
\<close>

datatype callback =
    RetryConnect bool nat
  | SetupSubscriptions jsval
  | ClearIntentionalDisconnect

text \<open>Whether \<open>builder...build()\<close> returns or throws (with an \<open>Error\<close> message, or another value).\<close>

datatype build_result = Built | Threw "string option"

record hook =
  store :: SpacetimeState
  connectionState :: ConnectionState
  localStorage_token :: "string option"
  now :: rat
  timers :: "(rat \<times> callback) list"
  attempts :: "(bool \<times> nat \<times> string option) list"
  subscribed :: "jsval list"
  closed :: "jsval list"

definition initial_hook :: hook where
  "initial_hook =
     \<lparr>store = initialState,
      connectionState = \<lparr>isConnecting = False, isIntentionalDisconnect = False\<rparr>,
      localStorage_token = None, now = 0, timers = [], attempts = [], subscribed = [],
      closed = []\<rparr>"

definition setTimeout :: "callback \<Rightarrow> rat \<Rightarrow> hook \<Rightarrow> hook" where
  "setTimeout cb delay h = h\<lparr>timers := timers h @ [(now h + delay, cb)]\<rparr>"

definition dispatch :: "(SpacetimeState \<Rightarrow> SpacetimeState) \<Rightarrow> hook \<Rightarrow> hook" where
  "dispatch f h = h\<lparr>store := f (store h)\<rparr>"

definition setConnecting :: "bool \<Rightarrow> hook \<Rightarrow> hook" where
  "setConnecting b h = h\<lparr>connectionState := (connectionState h)\<lparr>isConnecting := b\<rparr>\<rparr>"

definition setIntentionalDisconnect :: "bool \<Rightarrow> hook \<Rightarrow> hook" where
  "setIntentionalDisconnect b h =
     h\<lparr>connectionState := (connectionState h)\<lparr>isIntentionalDisconnect := b\<rparr>\<rparr>"

text \<open>
  The \<open>catch\<close> branch of \<open>connect\<close>. The first argument renders a number in a template
  literal; \<open>err\<close> is the message when the thrown value is an \<open>Error\<close>.
\<close>

definition connect_catch ::
  "(rat \<Rightarrow> string) \<Rightarrow> SpacetimeConfig \<Rightarrow> bool \<Rightarrow> nat \<Rightarrow> string option \<Rightarrow> hook \<Rightarrow> hook" where
  "connect_catch fmt cfg isConnected retryCount err h =
     (if \<not> isIntentionalDisconnect (connectionState h)
      then (let h1 = setConnecting False h in
            if of_nat retryCount < maxRetries cfg
            then (let retryDelay = retryBackoffMultiplier cfg * 1000 * (of_nat retryCount + 1)
                  in setTimeout (RetryConnect isConnected (retryCount + 1)) retryDelay h1)
            else (let errorMessage = (case err of Some m \<Rightarrow> m | None \<Rightarrow> ''Unknown connection error'')
                  in dispatch (\<lambda>s. setConnectionStatus s ''error'')
                       (dispatch (\<lambda>s. setError s (''Connection failed after '' @ fmt (maxRetries cfg)
                                                    @ '' attempts: '' @ errorMessage)) h1)))
      else dispatch (\<lambda>s. setConnectionStatus s ''disconnected'')
             (setIntentionalDisconnect False (setConnecting False h)))"

definition connect ::
  "(rat \<Rightarrow> string) \<Rightarrow> SpacetimeConfig \<Rightarrow> bool \<Rightarrow> nat \<Rightarrow> build_result \<Rightarrow> hook \<Rightarrow> hook" where
  "connect fmt cfg isConnected retryCount res h =
     (if isConnecting (connectionState h) \<or> isConnected then h
      else (let h1 = dispatch clearError
                       (dispatch (\<lambda>s. setConnectionStatus s ''connecting'')
                          (setIntentionalDisconnect False (setConnecting True h)));
                token = (case localStorage_token h1 of
                           Some t \<Rightarrow> if t \<noteq> [] then Some t else None
                         | None \<Rightarrow> None)
            in case res of
                 Built \<Rightarrow> h1\<lparr>attempts := attempts h1 @ [(isConnected, retryCount, token)]\<rparr>
               | Threw err \<Rightarrow> connect_catch fmt cfg isConnected retryCount err h1))"

definition onConnect :: "SpacetimeConfig \<Rightarrow> jsval \<Rightarrow> string \<Rightarrow> string \<Rightarrow> hook \<Rightarrow> hook" where
  "onConnect cfg conn identityHex receivedToken h =
     (let h1 = (if receivedToken \<noteq> [] then h\<lparr>localStorage_token := Some receivedToken\<rparr> else h);
          h2 = dispatch (\<lambda>s. setIdentity s identityHex) h1;
          h3 = dispatch (\<lambda>s. setConnectionStatus s ''connected'') h2;
          h4 = dispatch (\<lambda>s. setConnection s conn) h3;
          h5 = setConnecting False h4
      in setTimeout (SetupSubscriptions conn) (subscriptionDelay cfg) h5)"

definition onDisconnect :: "hook \<Rightarrow> hook" where
  "onDisconnect h =
     dispatch clearAllTables
       (dispatch (\<lambda>s. setConnection s JNull)
          (dispatch (\<lambda>s. setConnectionStatus s ''disconnected'') (setConnecting False h)))"

definition onConnectError ::
  "(rat \<Rightarrow> string) \<Rightarrow> SpacetimeConfig \<Rightarrow> bool \<Rightarrow> nat \<Rightarrow> string \<Rightarrow> hook \<Rightarrow> hook" where
  "onConnectError fmt cfg isConnected retryCount message h =
     (if \<not> isIntentionalDisconnect (connectionState h)
      then (let h1 = dispatch (\<lambda>s. setConnectionStatus s ''error'')
                       (dispatch (\<lambda>s. setError s message) (setConnecting False h))
            in if of_nat retryCount < maxRetries cfg
               then (let retryDelay = retryBackoffMultiplier cfg * 1000 * (of_nat retryCount + 1)
                     in setTimeout (RetryConnect isConnected (retryCount + 1)) retryDelay h1)
               else dispatch (\<lambda>s. setError s (''Connection failed after '' @ fmt (maxRetries cfg)
                                               @ '' attempts: '' @ message)) h1)
      else dispatch (\<lambda>s. setConnectionStatus s ''disconnected'')
             (setIntentionalDisconnect False (setConnecting False h)))"

definition disconnect :: "hook \<Rightarrow> hook" where
  "disconnect h =
     (let connection = state_get (store h) ''connection'' in
      if truthy connection
      then (let h1 = setConnecting False (setIntentionalDisconnect True h);
                h2 = h1\<lparr>closed := closed h1 @ [connection]\<rparr>;
                h3 = dispatch clearAllTables
                       (dispatch (\<lambda>s. setConnection s JNull)
                          (dispatch (\<lambda>s. setConnectionStatus s ''disconnected'') h2))
            in setTimeout ClearIntentionalDisconnect 1000 h3)
      else h)"

text \<open>Running a timer callback. A retry calls \<open>connect(retryCount + 1)\<close> and nothing else.\<close>

fun fire :: "(rat \<Rightarrow> string) \<Rightarrow> SpacetimeConfig \<Rightarrow> build_result \<Rightarrow> callback \<Rightarrow> hook \<Rightarrow> hook" where
  "fire fmt cfg res (RetryConnect isConnected n) h = connect fmt cfg isConnected n res h"
| "fire fmt cfg res (SetupSubscriptions conn) h = h\<lparr>subscribed := subscribed h @ [conn]\<rparr>"
| "fire fmt cfg res ClearIntentionalDisconnect h = setIntentionalDisconnect False h"

text \<open>The pending timer that is due first (the earliest scheduled one among equals).\<close>

fun next_timer :: "(rat \<times> callback) list \<Rightarrow> nat option" where
  "next_timer [] = None"
| "next_timer (t # ts) =
     (case next_timer ts of
        None \<Rightarrow> Some 0
      | Some i \<Rightarrow> if fst (ts ! i) < fst t then Some (Suc i) else Some 0)"

text \<open>
  The events of the hook. \<open>Connect\<close> is the host calling the current render's \<open>connect()\<close>,
  whose \<open>isConnected\<close> is the store's status; \<open>OnConnect k\<close> and \<open>OnConnectError k\<close> are the
  outcome of the \<open>k\<close>-th session being opened; \<open>Tick t\<close> lets the clock reach \<open>t\<close> when no
  timer is due before; \<open>FireNext\<close> runs the timer that is due first, at its due time.
\<close>

datatype event =
    Connect build_result
  | Disconnect
  | OnConnect nat jsval string string
  | OnConnectError nat string
  | OnDisconnect
  | Tick rat
  | FireNext build_result

definition remove_nth :: "nat \<Rightarrow> 'a list \<Rightarrow> 'a list" where
  "remove_nth i xs = take i xs @ drop (Suc i) xs"

fun step :: "(rat \<Rightarrow> string) \<Rightarrow> SpacetimeConfig \<Rightarrow> hook \<Rightarrow> event \<Rightarrow> hook" where
  "step fmt cfg h (Connect res) =
     connect fmt cfg (state_get (store h) ''connectionStatus'' = JStr ''connected'') 0 res h"
| "step fmt cfg h Disconnect = disconnect h"
| "step fmt cfg h (OnConnect k conn identityHex receivedToken) =
     (if k < length (attempts h)
      then onConnect cfg conn identityHex receivedToken (h\<lparr>attempts := remove_nth k (attempts h)\<rparr>)
      else h)"
| "step fmt cfg h (OnConnectError k message) =
     (if k < length (attempts h)
      then (case attempts h ! k of
              (isConnected, retryCount, _) \<Rightarrow>
                onConnectError fmt cfg isConnected retryCount message
                  (h\<lparr>attempts := remove_nth k (attempts h)\<rparr>))
      else h)"
| "step fmt cfg h OnDisconnect = onDisconnect h"
| "step fmt cfg h (Tick t) =
     (if now h \<le> t \<and> list_all (\<lambda>(d, cb). t \<le> d) (timers h) then h\<lparr>now := t\<rparr> else h)"
| "step fmt cfg h (FireNext res) =
     (case next_timer (timers h) of
        None \<Rightarrow> h
      | Some i \<Rightarrow>
          (case timers h ! i of
             (d, cb) \<Rightarrow> fire fmt cfg res cb (h\<lparr>now := max (now h) d, timers := remove_nth i (timers h)\<rparr>)))"

definition run :: "(rat \<Rightarrow> string) \<Rightarrow> SpacetimeConfig \<Rightarrow> hook \<Rightarrow> event list \<Rightarrow> hook" where
  "run fmt cfg h evs = foldl (step fmt cfg) h evs"

text \<open>Decimal rendering of a number; the examples render natural numbers only.\<close>

fun digits :: "nat \<Rightarrow> string" where
  "digits n =
     (if n < 10 then [''0123456789'' ! n]
      else digits (n div 10) @ [''0123456789'' ! (n mod 10)])"

declare digits.simps [simp del]

definition decimal :: "rat \<Rightarrow> string" where
  "decimal q = digits (nat \<lfloor>q\<rfloor>)"

text \<open>A session handle, opaque here.\<close>

definition example_conn :: jsval where
  "example_conn = JObject 100 []"

text \<open>
  A first attempt fails and schedules its retry for 2000 ms; the host reconnects by hand
  and the handshake succeeds; at 1500 ms the host disconnects; at 2000 ms the retry timer
  of the failed attempt runs.
\<close>

definition stale_retry_trace :: "event list" where
  "stale_retry_trace =
     [Connect Built, OnConnectError 0 ''refused'', Tick 100, Connect Built,
      OnConnect 0 example_conn ''c0ffee'' ''tok'', FireNext Built, Tick 1500, Disconnect]"

text \<open>
  The same, but the host reconnects right after disconnecting and the new handshake
  succeeds at 1600 ms, before the retry timer of the failed first attempt runs.
\<close>

definition stale_retry_reconnect_trace :: "event list" where
  "stale_retry_reconnect_trace =
     stale_retry_trace
     @ [Connect Built, Tick 1600, OnConnect 0 (JObject 101 []) ''c0ffee'' ''tok2'']"

section \<open>Catalog types (types/spacetime.ts)\<close>

text \<open>
  \<open>FieldMetadata\<close>, \<open>TableMetadata\<close> and \<open>ReducerMetadata\<close> as the zod schemas declare
  them. An optional property is an \<open>option\<close>; \<open>_enumConstructor\<close> is absent, \<open>null\<close>, or
  the exported item that was found, named by its export key. Icons are named by their
  key in the icon table.
\<close>

record Validation =
  required :: "bool option"
  min_v :: "rat option"
  max_v :: "rat option"
  pattern :: "string option"

record FieldMetadata =
  name :: string
  type :: string
  isOptional :: bool
  isArray :: bool
  enumValues :: "string list option"
  displayName :: string
  inputType :: string
  validation :: "Validation option"
  enumConstructor :: "string option option"

record TableMetadata =
  name :: string
  displayName :: string
  primaryKey :: string
  fields' :: "FieldMetadata list"
  icon :: string
  category :: string
  description :: string
  actions :: "string list"

record ReducerMetadata =
  name :: string
  displayName :: string
  description :: string
  category :: string
  fields' :: "FieldMetadata list"
  icon :: string
  color :: string
  isDestructive :: bool
  exampleArgs :: jsval

section \<open>String helpers\<close>

text \<open>
  \<open>String.prototype\<close> methods on the ASCII range: \<open>startsWith\<close>, \<open>endsWith\<close>,
  \<open>includes\<close>, \<open>toLowerCase\<close>, \<open>toUpperCase\<close>.
\<close>

fun startsWith :: "string \<Rightarrow> string \<Rightarrow> bool" where
  "startsWith s [] = True"
| "startsWith [] (p # ps) = False"
| "startsWith (c # cs) (p # ps) = (c = p \<and> startsWith cs ps)"

definition endsWith :: "string \<Rightarrow> string \<Rightarrow> bool" where
  "endsWith s p = startsWith (rev s) (rev p)"

fun includes' :: "string \<Rightarrow> string \<Rightarrow> bool" where
  "includes' [] p = (p = [])"
| "includes' (c # cs) p = (startsWith (c # cs) p \<or> includes' cs p)"

definition lower_alphabet :: string where
  "lower_alphabet = ''abcdefghijklmnopqrstuvwxyz''"

definition upper_alphabet :: string where
  "upper_alphabet = ''ABCDEFGHIJKLMNOPQRSTUVWXYZ''"

definition is_lower :: "char \<Rightarrow> bool" where
  "is_lower c = (c \<in> set lower_alphabet)"

definition is_upper :: "char \<Rightarrow> bool" where
  "is_upper c = (c \<in> set upper_alphabet)"

definition upper_char :: "char \<Rightarrow> char" where
  "upper_char c = (case map_of (zip lower_alphabet upper_alphabet) c of Some u \<Rightarrow> u | None \<Rightarrow> c)"

definition lower_char :: "char \<Rightarrow> char" where
  "lower_char c = (case map_of (zip upper_alphabet lower_alphabet) c of Some l \<Rightarrow> l | None \<Rightarrow> c)"

definition toUpperCase :: "string \<Rightarrow> string" where
  "toUpperCase s = map upper_char s"

definition toLowerCase :: "string \<Rightarrow> string" where
  "toLowerCase s = map lower_char s"

section \<open>The reducer invoker (hooks/spacetime/use-reducer-caller.ts)\<close>

text \<open>
  The global conversion functions \<open>Number\<close>, \<open>String\<close> and \<open>BigInt\<close> belong to the
  JavaScript runtime, not to the panel; the invoker takes them as a parameter. Each may
  throw. \<open>Boolean\<close> is truthiness.
\<close>

record js_runtime =
  to_Number :: "jsval \<Rightarrow> jserror + jsval"
  to_String :: "jsval \<Rightarrow> jserror + jsval"
  to_BigInt :: "jsval \<Rightarrow> jserror + jsval"

text \<open>
  A member of the session's \<open>reducers\<close> namespace: a callable method, which returns or
  rejects, or some other value. The session is \<open>null\<close> (\<open>None\<close>) when not connected.
\<close>

datatype member = Method "jsval list \<Rightarrow> jserror + jsval" | Value jsval

record DbConnection =
  reducers :: "(string \<times> member) list"

text \<open>\<open>str.replace(/_([a-z])/g, (_, letter) => letter.toUpperCase())\<close>\<close>

fun toCamelCase :: "string \<Rightarrow> string" where
  "toCamelCase [] = []"
| "toCamelCase [c] = [c]"
| "toCamelCase (c # d # cs) =
     (if c = CHR ''_'' \<and> is_lower d then upper_char d # toCamelCase cs
      else c # toCamelCase (d # cs))"

text \<open>
  \<open>Object.keys\<close>: the own enumerable keys (a function's \<open>length\<close>, \<open>name\<close> and
  \<open>prototype\<close> are not enumerable); it throws on \<open>undefined\<close> and \<open>null\<close>. Keys are
  listed in insertion order (the engine lists integer-like keys first; the invoker only
  looks keys up afterwards, and an integer-like key is never the camel-case image of
  another key, so the difference cannot be observed here).
\<close>

fun object_keys :: "jsval \<Rightarrow> jserror + string list" where
  "object_keys JUndefined = Inl TypeError"
| "object_keys JNull = Inl TypeError"
| "object_keys (JObject r ps) = Inr (map fst ps)"
| "object_keys (JArray r xs) = Inr (map digits [0..<length xs])"
| "object_keys (JStr s) = Inr (map digits [0..<length s])"
| "object_keys (JBool _) = Inr []"
| "object_keys (JNum _) = Inr []"
| "object_keys (JBigInt _) = Inr []"
| "object_keys (JFunction r ps) =
     Inr (filter (\<lambda>k. k \<notin> set [''length'', ''name'', ''prototype'']) (map fst ps))"

fun convert_keys :: "jsval \<Rightarrow> string list \<Rightarrow> (string \<times> jsval) list \<Rightarrow> jserror + (string \<times> jsval) list" where
  "convert_keys args [] converted = Inr converted"
| "convert_keys args (key # keys) converted =
     (case get_prop args key of
        Inl e \<Rightarrow> Inl e
      | Inr v \<Rightarrow> convert_keys args keys (AList.update (toCamelCase key) v converted))"

definition convertArgsToObject :: "jsval \<Rightarrow> jserror + (string \<times> jsval) list" where
  "convertArgsToObject args =
     (case object_keys args of
        Inl e \<Rightarrow> Inl e
      | Inr keys \<Rightarrow> convert_keys args keys [])"

definition convertValueByType :: "js_runtime \<Rightarrow> jsval \<Rightarrow> string \<Rightarrow> jserror + jsval" where
  "convertValueByType rt v ty =
     (if ty = ''string'' \<or> includes' ty ''String'' then to_String rt v
      else if ty = ''u64'' \<or> ty = ''i64'' then to_BigInt rt v
      else if ty = ''boolean'' \<or> ty = ''Bool'' then Inr (JBool (truthy v))
      else if startsWith ty ''u'' \<or> startsWith ty ''i'' \<or> startsWith ty ''f'' then to_Number rt v
      else Inr v)"

definition orderedArg :: "js_runtime \<Rightarrow> (string \<times> jsval) list \<Rightarrow> FieldMetadata \<Rightarrow> jserror + jsval" where
  "orderedArg rt convertedArgs field =
     (let v0 = (case map_of convertedArgs (FieldMetadata.name field) of
                  Some v \<Rightarrow> v | None \<Rightarrow> JUndefined) in
      case (if v0 \<noteq> JNull \<and> v0 \<noteq> JUndefined then convertValueByType rt v0 (type field)
            else Inr v0) of
        Inl e \<Rightarrow> Inl e
      | Inr v \<Rightarrow>
          if isOptional field \<and> (v = JNull \<or> v = JUndefined \<or> strict_eq v (JStr ''''))
          then Inr JUndefined
          else Inr v)"

text \<open>\<open>fields.map(...)\<close>, left to right; the first conversion that throws ends it.\<close>

fun createOrderedArgs ::
  "js_runtime \<Rightarrow> FieldMetadata list \<Rightarrow> (string \<times> jsval) list \<Rightarrow> jserror + jsval list" where
  "createOrderedArgs rt [] convertedArgs = Inr []"
| "createOrderedArgs rt (field # rest) convertedArgs =
     (case orderedArg rt convertedArgs field of
        Inl e \<Rightarrow> Inl e
      | Inr v \<Rightarrow> (case createOrderedArgs rt rest convertedArgs of
                    Inl e \<Rightarrow> Inl e
                  | Inr vs \<Rightarrow> Inr (v # vs)))"

text \<open>The two marshalling steps inside \<open>callReducer\<close>'s \<open>try\<close> block.\<close>

definition marshal :: "js_runtime \<Rightarrow> FieldMetadata list \<Rightarrow> jsval \<Rightarrow> jserror + jsval list" where
  "marshal rt fs args =
     (case convertArgsToObject args of
        Inl e \<Rightarrow> Inl e
      | Inr convertedArgs \<Rightarrow> createOrderedArgs rt fs convertedArgs)"

text \<open>
  \<open>callReducer\<close> returns the outcome of the promise and the remote calls it issued, each
  with the method name and the positional arguments.
\<close>

definition callReducer ::
  "js_runtime \<Rightarrow> DbConnection option \<Rightarrow> ReducerMetadata list \<Rightarrow> string \<Rightarrow> jsval
     \<Rightarrow> (jserror + jsval) \<times> (string \<times> jsval list) list" where
  "callReducer rt connection discoveredReducers reducerName args =
     (case connection of
        None \<Rightarrow> (Inl (Error ''Not connected to SpacetimeDB''), [])
      | Some conn \<Rightarrow>
          (case find (\<lambda>r. ReducerMetadata.name r = reducerName) discoveredReducers of
             None \<Rightarrow> (Inl (Error (''Reducer metadata not found: '' @ reducerName)), [])
           | Some reducerMetadata \<Rightarrow>
               (let camelCaseMethodName = toCamelCase reducerName in
                case map_of (reducers conn) camelCaseMethodName of
                  Some (Method reducerMethod) \<Rightarrow>
                    (case convertArgsToObject args of
                       Inl e \<Rightarrow> (Inl e, [])
                     | Inr convertedArgs \<Rightarrow>
                         (case createOrderedArgs rt (ReducerMetadata.fields' reducerMetadata) convertedArgs of
                            Inl e \<Rightarrow> (Inl e, [])
                          | Inr orderedArgs \<Rightarrow>
                              (reducerMethod orderedArgs, [(camelCaseMethodName, orderedArgs)])))
                | _ \<Rightarrow> (Inl (Error (''Reducer method not found: '' @ camelCaseMethodName)), []))))"

subsection \<open>An example runtime and catalog\<close>

text \<open>
  A runtime for the examples. It agrees with ECMAScript on the inputs the examples use:
  strings of decimal digits, the empty string, booleans, \<open>null\<close>, \<open>undefined\<close> and strings
  that are not numeric at all. It is not a model of the conversions elsewhere.
\<close>

definition decimal_value :: "string \<Rightarrow> nat" where
  "decimal_value s = foldl (\<lambda>n c. 10 * n + ((of_char c :: nat) - 48)) 0 s"

fun example_Number :: "jsval \<Rightarrow> jserror + jsval" where
  "example_Number (JStr s) =
     Inr (JNum (if list_all is_digit s then Fin (of_nat (decimal_value s)) else NaN))"
| "example_Number (JNum n) = Inr (JNum n)"
| "example_Number (JBool b) = Inr (JNum (Fin (if b then 1 else 0)))"
| "example_Number JNull = Inr (JNum (Fin 0))"
| "example_Number (JBigInt i) = Inr (JNum (Fin (of_int i)))"
| "example_Number _ = Inr (JNum NaN)"

fun example_String :: "jsval \<Rightarrow> jserror + jsval" where
  "example_String (JStr s) = Inr (JStr s)"
| "example_String JUndefined = Inr (JStr ''undefined'')"
| "example_String JNull = Inr (JStr ''null'')"
| "example_String (JBool b) = Inr (JStr (if b then ''true'' else ''false''))"
| "example_String _ = Inr (JStr ''[object Object]'')"

fun example_BigInt :: "jsval \<Rightarrow> jserror + jsval" where
  "example_BigInt (JStr s) =
     (if list_all is_digit s then Inr (JBigInt (int (decimal_value s))) else Inl SyntaxError)"
| "example_BigInt (JBigInt i) = Inr (JBigInt i)"
| "example_BigInt (JBool b) = Inr (JBigInt (if b then 1 else 0))"
| "example_BigInt (JNum _) = Inl RangeError"
| "example_BigInt _ = Inl TypeError"

definition example_runtime :: js_runtime where
  "example_runtime =
     \<lparr>to_Number = example_Number, to_String = example_String, to_BigInt = example_BigInt\<rparr>"

definition example_field :: "string \<Rightarrow> string \<Rightarrow> bool \<Rightarrow> FieldMetadata" where
  "example_field n ty opt =
     \<lparr>FieldMetadata.name = n, type = ty, isOptional = opt, isArray = False,
      enumValues = None, displayName = n, inputType = ''text'', validation = None,
      enumConstructor = None\<rparr>"

definition example_reducer :: "string \<Rightarrow> FieldMetadata list \<Rightarrow> jsval \<Rightarrow> ReducerMetadata" where
  "example_reducer n fs ex =
     \<lparr>ReducerMetadata.name = n, displayName = n, description = '''', category = ''Other'',
      fields' = fs, icon = ''default'', color = ''gray'', isDestructive = False,
      exampleArgs = ex\<rparr>"

text \<open>A session whose \<open>setScore\<close> resolves and whose \<open>addUser\<close> rejects.\<close>

definition example_session :: DbConnection where
  "example_session =
     \<lparr>reducers = [(''setScore'', Method (\<lambda>args. Inr JUndefined)),
                  (''addUser'', Method (\<lambda>args. Inl (Error ''rejected by the module'')))]\<rparr>"

section \<open>The type analyzer (utils/introspection/type-analyzer.ts)\<close>

text \<open>
  Modelled from the spec: the SDK's \<open>AlgebraicType\<close>, a declaration the repository
  imports but does not contain. It is the closed tagged variant of the specification's
  data model: the primitives, a product of named elements, a sum of named variants each
  with an optional payload, arrays, maps and the five special types. A name that may be
  missing, and the element and variant lists the analyzer guards with \<open>!x\<close> or \<open>?.\<close>,
  are options.
\<close>

datatype AlgebraicType =
    Bool | U8 | U16 | U32 | U64 | I8 | I16 | I32 | I64 | F32 | F64 | String
  | ProductType "ProductTypeElement list option"
  | SumType "SumTypeVariant list option"
  | ArrayType AlgebraicType
  | MapType AlgebraicType AlgebraicType
  | Identity | ConnectionId | Timestamp | TimeDuration | ScheduleAt
and ProductTypeElement =
    ProductTypeElement (element_name: "string option") (element_type: AlgebraicType)
and SumTypeVariant =
    SumTypeVariant (variant_name: "string option") (variant_type: "AlgebraicType option")

text \<open>\<open>name || fallback\<close> for a name that may be missing or empty.\<close>

definition name_or :: "string option \<Rightarrow> string \<Rightarrow> string" where
  "name_or n fallback = (case n of Some s \<Rightarrow> if s \<noteq> [] then s else fallback | None \<Rightarrow> fallback)"

text \<open>\<open>v.name?.toLowerCase()\<close>\<close>

definition lower_name :: "SumTypeVariant \<Rightarrow> string option" where
  "lower_name v = map_option toLowerCase (variant_name v)"

text \<open>
  \<open>getTypeString\<close>. The payload of the first variant named \<open>some\<close> is found by
  \<open>some_type_string\<close>, which is \<open>None\<close> when there is no such variant or it has no payload
  (\<open>someVariant?.algebraicType\<close> is falsy).
\<close>

fun getTypeString :: "AlgebraicType \<Rightarrow> string"
  and some_type_string :: "SumTypeVariant list \<Rightarrow> string option" where
  "getTypeString (SumType (Some vs)) =
     (if length vs = 2 \<and> Some ''some'' \<in> set (map lower_name vs)
          \<and> Some ''none'' \<in> set (map lower_name vs)
      then (case some_type_string vs of Some s \<Rightarrow> s | None \<Rightarrow> ''enum'')
      else ''enum'')"
| "getTypeString (SumType None) = ''enum''"
| "getTypeString Bool = ''boolean''"
| "getTypeString U8 = ''u8''"
| "getTypeString U16 = ''u16''"
| "getTypeString U32 = ''u32''"
| "getTypeString U64 = ''u64''"
| "getTypeString I8 = ''i8''"
| "getTypeString I16 = ''i16''"
| "getTypeString I32 = ''i32''"
| "getTypeString I64 = ''i64''"
| "getTypeString F32 = ''f32''"
| "getTypeString F64 = ''f64''"
| "getTypeString String = ''string''"
| "getTypeString (ProductType _) = ''object''"
| "getTypeString (ArrayType t) = ''Array<'' @ getTypeString t @ ''>''"
| "getTypeString (MapType k v) = ''Map<'' @ getTypeString k @ '', '' @ getTypeString v @ ''>''"
| "getTypeString Identity = ''Identity''"
| "getTypeString ConnectionId = ''ConnectionId''"
| "getTypeString Timestamp = ''Timestamp''"
| "getTypeString TimeDuration = ''TimeDuration''"
| "getTypeString ScheduleAt = ''ScheduleAt''"
| "some_type_string [] = None"
| "some_type_string (SumTypeVariant n None # vs) =
     (if map_option toLowerCase n = Some ''some'' then None else some_type_string vs)"
| "some_type_string (SumTypeVariant n (Some t) # vs) =
     (if map_option toLowerCase n = Some ''some'' then Some (getTypeString t)
      else some_type_string vs)"

definition isOptionalType :: "AlgebraicType \<Rightarrow> bool" where
  "isOptionalType t =
     (case t of
        SumType (Some vs) \<Rightarrow>
          Some ''none'' \<in> set (map lower_name vs) \<and> Some ''some'' \<in> set (map lower_name vs)
      | _ \<Rightarrow> False)"

definition isArrayType :: "AlgebraicType \<Rightarrow> bool" where
  "isArrayType t = (case t of ArrayType _ \<Rightarrow> True | _ \<Rightarrow> False)"

definition extractEnumValues :: "AlgebraicType \<Rightarrow> string list option" where
  "extractEnumValues t =
     (case t of
        SumType (Some vs) \<Rightarrow>
          if \<not> isOptionalType t then Some (map (\<lambda>v. name_or (variant_name v) '''') vs) else None
      | _ \<Rightarrow> None)"

text \<open>The name patterns of \<open>inferInputType\<close>, in the order of the object literal.\<close>

definition input_patterns :: "(string \<times> string) list" where
  "input_patterns =
     [(''email'', ''email''), (''mail'', ''email''), (''password'', ''password''),
      (''secret'', ''password''), (''token'', ''password''), (''url'', ''url''),
      (''link'', ''url''), (''website'', ''url''), (''description'', ''textarea''),
      (''content'', ''textarea''), (''message'', ''textarea''), (''comment'', ''textarea''),
      (''bio'', ''textarea''), (''about'', ''textarea'')]"

text \<open>The test \<open>/^[ui](8|16|32|64)$|^f(32|64)$/\<close>.\<close>

definition is_numeric_type :: "string \<Rightarrow> bool" where
  "is_numeric_type ty =
     (ty \<in> set [''u8'', ''u16'', ''u32'', ''u64'', ''i8'', ''i16'', ''i32'', ''i64'', ''f32'', ''f64''])"

definition inferInputType :: "string \<Rightarrow> string \<Rightarrow> string" where
  "inferInputType typeString fieldName =
     (let lowerName = toLowerCase fieldName in
      if typeString = ''enum'' then ''select''
      else if typeString = ''boolean'' then ''boolean''
      else (case find (\<lambda>(p, _). includes' lowerName p) input_patterns of
              Some (_, found) \<Rightarrow> found
            | None \<Rightarrow>
                if includes' lowerName ''date'' \<or> includes' lowerName ''time''
                   \<or> includes' lowerName ''created'' \<or> includes' lowerName ''updated''
                   \<or> typeString = ''Timestamp''
                then ''date''
                else if is_numeric_type typeString then ''number''
                else ''text''))"

definition numericLimits :: "(string \<times> rat \<times> rat) list" where
  "numericLimits = [(''u8'', 0, 255), (''u16'', 0, 65535), (''u32'', 0, 4294967295)]"

definition generateValidation :: "string \<Rightarrow> string \<Rightarrow> Validation" where
  "generateValidation typeString fieldName =
     (let lowerName = toLowerCase fieldName;
          req = (if \<not> includes' lowerName ''optional'' \<and> \<not> includes' typeString ''Option''
                 then Some True else None);
          limits = map_of numericLimits typeString;
          pat = (if typeString = ''string''
                 then (if includes' lowerName ''email'' then Some (''^[^@]+@[^@]+'' @ [CHR 0x5C] @ ''.[^@]+$'')
                       else if includes' lowerName ''url'' then Some ''^https?://.*''
                       else None)
                 else None)
      in \<lparr>required = req, min_v = map_option fst limits, max_v = map_option snd limits,
          pattern = pat\<rparr>)"

text \<open>
  \<open>formatDisplayName\<close>: split at runs of underscores and white space, capitalize each
  word, join with a space. \<open>split_words\<close> is the \<open>split\<close>; it carries the word being read,
  reversed, and whether the last character was a separator.
\<close>

definition is_separator :: "char \<Rightarrow> bool" where
  "is_separator c = (c \<in> set [CHR ''_'', CHR '' '', CHR 0x09, CHR 0x0A, CHR 0x0B, CHR 0x0C, CHR 0x0D])"

fun split_words :: "string \<Rightarrow> string \<Rightarrow> bool \<Rightarrow> string list" where
  "split_words [] cur in_sep = [rev cur]"
| "split_words (c # cs) cur in_sep =
     (if is_separator c
      then (if in_sep then split_words cs cur True else rev cur # split_words cs [] True)
      else split_words cs (c # cur) False)"

definition capitalize :: "string \<Rightarrow> string" where
  "capitalize word = (case word of [] \<Rightarrow> [] | c # cs \<Rightarrow> upper_char c # cs)"

fun join :: "string \<Rightarrow> string list \<Rightarrow> string" where
  "join sep [] = []"
| "join sep [w] = w"
| "join sep (w # ws) = w @ sep @ join sep ws"

definition formatDisplayName :: "string \<Rightarrow> string" where
  "formatDisplayName n = join '' '' (map capitalize (split_words n [] False))"

definition analyzeProductType :: "ProductTypeElement list option \<Rightarrow> FieldMetadata list" where
  "analyzeProductType elements =
     (case elements of
        None \<Rightarrow> []
      | Some els \<Rightarrow>
          map (\<lambda>element.
                 \<lparr>FieldMetadata.name = name_or (element_name element) ''unknown'',
                  type = getTypeString (element_type element),
                  isOptional = isOptionalType (element_type element),
                  isArray = isArrayType (element_type element),
                  enumValues = extractEnumValues (element_type element),
                  displayName = formatDisplayName (name_or (element_name element) ''unknown''),
                  inputType = inferInputType (getTypeString (element_type element))
                                (name_or (element_name element) ''''),
                  validation = Some (generateValidation (getTypeString (element_type element))
                                       (name_or (element_name element) '''')),
                  enumConstructor = None\<rparr>) els)"

definition analyzeSumType :: "SumTypeVariant list option \<Rightarrow> string \<Rightarrow> FieldMetadata list" where
  "analyzeSumType variants n =
     (case variants of
        None \<Rightarrow> []
      | Some vs \<Rightarrow>
          [\<lparr>FieldMetadata.name = (if n \<noteq> [] then n else ''variant''),
            type = ''enum'',
            isOptional = False,
            isArray = False,
            enumValues = Some (map (\<lambda>v. name_or (variant_name v) '''') vs),
            displayName = formatDisplayName (if n \<noteq> [] then n else ''variant''),
            inputType = ''select'',
            validation = Some \<lparr>required = Some True, min_v = None, max_v = None, pattern = None\<rparr>,
            enumConstructor = None\<rparr>])"

definition createFieldFromPrimitive :: "AlgebraicType \<Rightarrow> string \<Rightarrow> FieldMetadata" where
  "createFieldFromPrimitive t n =
     (let typeString = getTypeString t in
      \<lparr>FieldMetadata.name = (if n \<noteq> [] then n else ''value''),
       type = typeString,
       isOptional = False,
       isArray = False,
       enumValues = None,
       displayName = formatDisplayName (if n \<noteq> [] then n else ''value''),
       inputType = inferInputType typeString n,
       validation = Some (generateValidation typeString n),
       enumConstructor = None\<rparr>)"

subsection \<open>The generated module and the enum-constructor lookup\<close>

text \<open>
  The generated bindings are not part of the repository; the analyzer and the discovery
  only inspect them. An exported item is described by what they inspect: its \<open>typeof\<close>,
  whether it is \<open>null\<close> and whether it is truthy, the keys whose property reads as not
  \<open>undefined\<close>, what its \<open>getTypeScriptAlgebraicType\<close> is, and the own property names of
  its \<open>prototype\<close>, each with whether it is a function.
\<close>

datatype accessor = NoAccessor | Returns AlgebraicType | Throws

record ModuleItem =
  item_typeof :: string
  item_null :: bool
  item_truthy :: bool
  defined_props :: "string list"
  getTypeScriptAlgebraicType :: accessor
  prototype_names :: "(string \<times> bool) list option"

type_synonym GeneratedModule = "(string \<times> ModuleItem) list"

text \<open>
  \<open>findEnumConstructor\<close>: the export key of the constructor found, or \<open>None\<close> for \<open>null\<close>.
  Reading a property of a \<open>null\<close> export throws inside the filter; the \<open>catch\<close> then
  returns \<open>null\<close>. With no enum value, \<open>some\<close> is false on every item.
\<close>

definition findEnumConstructor :: "GeneratedModule \<Rightarrow> string \<Rightarrow> string list \<Rightarrow> string option" where
  "findEnumConstructor m fieldName enumValues' =
     (if enumValues' \<noteq> []
         \<and> list_ex (\<lambda>(k, item). (item_typeof item = ''function'' \<or> item_typeof item = ''object'')
                                \<and> item_null item) m
      then None
      else (let possibleEnums =
                  filter (\<lambda>(k, item).
                            (item_typeof item = ''function'' \<or> item_typeof item = ''object'')
                            \<and> list_ex (\<lambda>enumValue. enumValue \<in> set (defined_props item)) enumValues') m
            in case find (\<lambda>(k, item). hd enumValues' \<in> set (defined_props item)) possibleEnums of
                 Some (k, _) \<Rightarrow> Some k
               | None \<Rightarrow> None))"

definition enhanceEnumField :: "GeneratedModule \<Rightarrow> FieldMetadata \<Rightarrow> FieldMetadata" where
  "enhanceEnumField m field =
     (case enumValues field of
        Some evs \<Rightarrow>
          if type field = ''enum''
          then field\<lparr>enumConstructor := Some (findEnumConstructor m (FieldMetadata.name field) evs)\<rparr>
          else field
      | None \<Rightarrow> field)"

text \<open>
  \<open>analyzeAlgebraicType\<close> with its memoization cache, passed in and returned. The cache
  key is \<open>safeStringify(type)\<close>, which rests on the flatted library and is a parameter.
\<close>

type_synonym typeCache = "string \<Rightarrow> FieldMetadata list option"

definition analyzeAlgebraicType ::
  "(AlgebraicType \<Rightarrow> string) \<Rightarrow> GeneratedModule \<Rightarrow> typeCache \<Rightarrow> AlgebraicType \<Rightarrow> string
     \<Rightarrow> FieldMetadata list \<times> typeCache" where
  "analyzeAlgebraicType safeStringify m typeCache t n =
     (let cacheKey = safeStringify t in
      case typeCache cacheKey of
        Some cached \<Rightarrow> (cached, typeCache)
      | None \<Rightarrow>
          (let fields0 = (case t of
                            ProductType elements \<Rightarrow> analyzeProductType elements
                          | SumType variants \<Rightarrow> analyzeSumType variants n
                          | _ \<Rightarrow> [createFieldFromPrimitive t n]);
               fields1 = map (enhanceEnumField m) fields0
           in (fields1, typeCache(cacheKey \<mapsto> fields1))))"

text \<open>
  The shape the claim on optional wrappers speaks of: exactly two variants, named
  \<open>some\<close> and \<open>none\<close> in any casing.
\<close>

definition is_option_wrapper :: "SumTypeVariant list \<Rightarrow> bool" where
  "is_option_wrapper vs =
     (case vs of
        [v, w] \<Rightarrow> (lower_name v = Some ''some'' \<and> lower_name w = Some ''none'')
                   \<or> (lower_name v = Some ''none'' \<and> lower_name w = Some ''some'')
      | _ \<Rightarrow> False)"

definition some_payload :: "SumTypeVariant list \<Rightarrow> AlgebraicType option" where
  "some_payload vs =
     (case find (\<lambda>v. lower_name v = Some ''some'') vs of
        Some v \<Rightarrow> variant_type v
      | None \<Rightarrow> None)"

definition option_of :: "AlgebraicType \<Rightarrow> AlgebraicType" where
  "option_of t = SumType (Some [SumTypeVariant (Some ''some'') (Some t), SumTypeVariant (Some ''none'') None])"

definition color_enum :: AlgebraicType where
  "color_enum = SumType (Some [SumTypeVariant (Some ''Red'') None, SumTypeVariant (Some ''Green'') None])"

definition no_cache :: typeCache where
  "no_cache = (\<lambda>_. None)"

text \<open>A structural rendering of a type, standing in for \<open>safeStringify\<close> in the examples.\<close>

fun render :: "AlgebraicType \<Rightarrow> string"
  and render_elements :: "ProductTypeElement list \<Rightarrow> string"
  and render_variants :: "SumTypeVariant list \<Rightarrow> string" where
  "render (ProductType None) = ''Product''"
| "render (ProductType (Some es)) = ''Product{'' @ render_elements es @ ''}''"
| "render (SumType None) = ''Sum''"
| "render (SumType (Some vs)) = ''Sum{'' @ render_variants vs @ ''}''"
| "render (ArrayType t) = ''Array['' @ render t @ '']''"
| "render (MapType k v) = ''Map['' @ render k @ '','' @ render v @ '']''"
| "render t = getTypeString t"
| "render_elements [] = []"
| "render_elements (ProductTypeElement n t # es) =
     name_or n ''?'' @ '':'' @ render t @ '';'' @ render_elements es"
| "render_variants [] = []"
| "render_variants (SumTypeVariant n None # vs) = name_or n ''?'' @ '';'' @ render_variants vs"
| "render_variants (SumTypeVariant n (Some t) # vs) =
     name_or n ''?'' @ '':'' @ render t @ '';'' @ render_variants vs"

section \<open>Module discovery (utils/introspection/module-discovery.ts)\<close>

text \<open>\<open>str.replace(pattern, replacement)\<close> with a string pattern: the first occurrence only.\<close>

fun replace_first :: "string \<Rightarrow> string \<Rightarrow> string \<Rightarrow> string" where
  "replace_first [] p r = (if p = [] then r else [])"
| "replace_first (c # cs) p r =
     (if startsWith (c # cs) p then r @ drop (length p) (c # cs)
      else c # replace_first cs p r)"

text \<open>\<open>type && typeof type.getTypeScriptAlgebraicType === "function"\<close> for the export \<open>typeName\<close>.\<close>

definition has_type_accessor :: "GeneratedModule \<Rightarrow> string \<Rightarrow> bool" where
  "has_type_accessor m typeName =
     (case map_of m typeName of
        Some item \<Rightarrow> item_truthy item \<and> getTypeScriptAlgebraicType item \<noteq> NoAccessor
      | None \<Rightarrow> False)"

definition findTableHandles :: "GeneratedModule \<Rightarrow> string list" where
  "findTableHandles m =
     map fst (filter (\<lambda>(key, item). endsWith key ''TableHandle'' \<and> item_typeof item = ''function'') m)"

definition findTableTypes :: "GeneratedModule \<Rightarrow> string list" where
  "findTableTypes m =
     filter (has_type_accessor m)
       (map (\<lambda>handle. replace_first handle ''TableHandle'' []) (findTableHandles m))"

definition methodNameToTypeName :: "string \<Rightarrow> string" where
  "methodNameToTypeName methodName = capitalize methodName"

definition findReducerTypes :: "GeneratedModule \<Rightarrow> string list" where
  "findReducerTypes m =
     (case map_of m ''RemoteReducers'' of
        None \<Rightarrow> []
      | Some remoteReducers \<Rightarrow>
          (case prototype_names remoteReducers of
             None \<Rightarrow> []
           | Some names \<Rightarrow>
               filter (has_type_accessor m)
                 (map methodNameToTypeName
                    (map fst (filter (\<lambda>(n, is_function).
                                        n \<noteq> ''constructor'' \<and> is_function
                                        \<and> \<not> startsWith n ''on'' \<and> \<not> startsWith n ''removeOn'')
                                names)))))"

section \<open>Categories and icons (utils/introspection/categorization.ts)\<close>

definition CATEGORY_PATTERNS :: "(string \<times> string list) list" where
  "CATEGORY_PATTERNS =
     [(''User Management'',
        [''user'', ''profile'', ''account'', ''identity'', ''auth'', ''login'',
         ''register'', ''signup'', ''signin'', ''credential'', ''member'', ''player'']),
      (''Room & Sessions'',
        [''room'', ''session'', ''lobby'', ''channel'', ''group'', ''party'', ''match'',
         ''game'', ''instance'', ''server'', ''join'', ''leave'', ''enter'', ''exit'']),
      (''Content & Media'',
        [''block'', ''item'', ''asset'', ''media'', ''file'', ''image'', ''document'',
         ''content'', ''post'', ''message'', ''comment'', ''data'']),
      (''Financial'',
        [''currency'', ''money'', ''coin'', ''token'', ''price'', ''cost'', ''payment'',
         ''transaction'', ''wallet'', ''balance'', ''revenue'', ''earning'']),
      (''Configuration'',
        [''config'', ''setting'', ''preference'', ''option'', ''template'', ''schema'',
         ''rule'', ''policy'', ''parameter'', ''default'']),
      (''Analytics'',
        [''stat'', ''metric'', ''analytics'', ''report'', ''log'', ''event'', ''tracking'',
         ''monitor'', ''performance'', ''usage'', ''activity'']),
      (''System'',
        [''init'', ''setup'', ''install'', ''deploy'', ''system'', ''admin'', ''manage'',
         ''control'', ''process'', ''service'', ''daemon'']),
      (''Security'',
        [''permission'', ''role'', ''access'', ''security'', ''auth'', ''token'',
         ''secret'', ''key'', ''encrypt'', ''decrypt'', ''hash''])]"

text \<open>Icons are named by their component.\<close>

definition ICON_MAP :: "(string \<times> string) list" where
  "ICON_MAP =
     [(''user'', ''Users''), (''profile'', ''Users''), (''account'', ''Users''),
      (''member'', ''Users''), (''player'', ''Users''), (''identity'', ''Users''),
      (''auth'', ''Shield''), (''login'', ''Shield''), (''register'', ''Users''),
      (''room'', ''Activity''), (''session'', ''Activity''), (''lobby'', ''Activity''),
      (''channel'', ''MessageSquare''), (''group'', ''Users''), (''party'', ''Users''),
      (''match'', ''Trophy''), (''game'', ''Trophy''), (''block'', ''Grid''),
      (''item'', ''Package''), (''asset'', ''Package''), (''media'', ''Image''),
      (''file'', ''File''), (''document'', ''File''), (''content'', ''File''),
      (''post'', ''MessageSquare''), (''message'', ''MessageSquare''),
      (''comment'', ''MessageSquare''), (''currency'', ''Coins''),
      (''money'', ''DollarSign''), (''coin'', ''Coins''), (''token'', ''Coins''),
      (''price'', ''DollarSign''), (''cost'', ''DollarSign''),
      (''payment'', ''DollarSign''), (''wallet'', ''Wallet''), (''balance'', ''Wallet''),
      (''revenue'', ''BarChart3''), (''config'', ''Settings''),
      (''setting'', ''Settings''), (''template'', ''Package''), (''rule'', ''Settings''),
      (''policy'', ''Shield''), (''parameter'', ''Settings''), (''stat'', ''BarChart3''),
      (''metric'', ''BarChart3''), (''analytics'', ''BarChart3''),
      (''report'', ''BarChart3''), (''log'', ''File''), (''event'', ''Zap''),
      (''tracking'', ''BarChart3''), (''init'', ''Settings''), (''setup'', ''Settings''),
      (''system'', ''Database''), (''admin'', ''Shield''), (''process'', ''Zap''),
      (''service'', ''Database''), (''time'', ''Clock''), (''date'', ''Calendar''),
      (''created'', ''Calendar''), (''updated'', ''Calendar''), (''email'', ''Mail''),
      (''mail'', ''Mail''), (''notification'', ''Bell''), (''alert'', ''Bell''),
      (''online'', ''Globe''), (''active'', ''Zap''), (''status'', ''Flag''),
      (''state'', ''Flag''), (''default'', ''Database'')]"

definition categorizeItem :: "string \<Rightarrow> string" where
  "categorizeItem n =
     (let lowerName = toLowerCase n in
      case find (\<lambda>(cat, patterns). list_ex (\<lambda>p. includes' lowerName p) patterns) CATEGORY_PATTERNS of
        Some (cat, _) \<Rightarrow> cat
      | None \<Rightarrow> ''Other'')"

definition getIconForItem :: "string \<Rightarrow> string" where
  "getIconForItem n =
     (let lowerName = toLowerCase n in
      case find (\<lambda>(key, _). includes' lowerName key) ICON_MAP of
        Some (_, found) \<Rightarrow> found
      | None \<Rightarrow> ''Database'')"

section \<open>Descriptions (utils/introspection/description-generator.ts)\<close>

definition generateTableDescription :: "string \<Rightarrow> FieldMetadata list \<Rightarrow> string" where
  "generateTableDescription tableName fs =
     (let cat = categorizeItem tableName;
          fieldCount = length fs;
          fieldText = (if fieldCount = 1 then ''field'' else ''fields'');
          cleanName = map (\<lambda>c. if c = CHR ''_'' then CHR '' '' else c) tableName
      in cat @ '' table with '' @ digits fieldCount @ '' '' @ fieldText @ ''. Stores ''
           @ cleanName @ '' related data.'')"

definition actionPatterns :: "(string \<times> string list) list" where
  "actionPatterns =
     [(''Create'', [''create'', ''add'', ''register'']),
      (''Update'', [''update'', ''modify'', ''edit'']),
      (''Delete'', [''delete'', ''remove'', ''destroy'']),
      (''Retrieve'', [''get'', ''fetch'', ''retrieve'']),
      (''Join'', [''join'', ''connect'', ''attach'']),
      (''Leave'', [''leave'', ''disconnect'', ''detach'']),
      (''Open'', [''open'', ''unlock'', ''activate'']),
      (''Close'', [''close'', ''lock'', ''deactivate'']),
      (''Start'', [''start'', ''begin'', ''init'']),
      (''Stop'', [''stop'', ''end'', ''finish'']),
      (''Send'', [''send'', ''post'', ''publish'']),
      (''Generate'', [''generate'', ''produce'', ''build''])]"

definition first_pattern :: "(string \<times> string list) list \<Rightarrow> string \<Rightarrow> string option" where
  "first_pattern table n =
     map_option fst (find (\<lambda>(_, patterns). list_ex (\<lambda>p. includes' n p) patterns) table)"

definition inferAction :: "string \<Rightarrow> string" where
  "inferAction reducerName =
     (case first_pattern actionPatterns (toLowerCase reducerName) of
        Some found \<Rightarrow> found
      | None \<Rightarrow> ''Execute'')"

definition targetPatterns :: "(string \<times> string list) list" where
  "targetPatterns =
     [(''user'', [''user'', ''player'', ''member'']),
      (''room'', [''room'', ''session'', ''lobby'']),
      (''block'', [''block'', ''item'', ''asset'']),
      (''message'', [''message'', ''post'', ''comment'']),
      (''configuration'', [''config'', ''setting'', ''preference'']),
      (''statistics'', [''stat'', ''metric'', ''analytics''])]"

text \<open>\<open>name.split("_")\<close>\<close>

fun split_on :: "char \<Rightarrow> string \<Rightarrow> string list" where
  "split_on sep [] = [[]]"
| "split_on sep (c # cs) =
     (if c = sep then [] # split_on sep cs
      else (case split_on sep cs of w # ws \<Rightarrow> (c # w) # ws | [] \<Rightarrow> [[c]]))"

definition inferTarget :: "string \<Rightarrow> string" where
  "inferTarget reducerName =
     (let n = toLowerCase reducerName in
      case first_pattern targetPatterns n of
        Some found \<Rightarrow> found
      | None \<Rightarrow> (let parts = split_on (CHR ''_'') n in
                  if length parts > 1 then last parts else ''operation''))"

definition generateReducerDescription :: "string \<Rightarrow> FieldMetadata list \<Rightarrow> string" where
  "generateReducerDescription reducerName fs =
     (let action = inferAction reducerName;
          target = inferTarget reducerName
      in case fs of
           [] \<Rightarrow> action @ '' '' @ target @ '' operation with no parameters.''
         | first # _ \<Rightarrow>
             (let primaryField =
                    (case find (\<lambda>f. includes' (FieldMetadata.name f) ''id''
                                     \<or> includes' (FieldMetadata.name f) ''name'') fs of
                       Some f \<Rightarrow> f
                     | None \<Rightarrow> first);
                  additionalParams =
                    (if length fs > 1
                     then '' and '' @ digits (length fs - 1) @ '' other parameter''
                            @ (if length fs > 2 then ''s'' else [])
                     else [])
              in action @ '' '' @ target @ '' operation. Requires ''
                   @ toLowerCase (FieldMetadata.displayName primaryField) @ additionalParams @ ''.''))"

section \<open>The introspector (SpacetimeIntrospector)\<close>

text \<open>\<open>str.replace(/([A-Z])/g, "_$1").toLowerCase().replace(/^_/, "")\<close>\<close>

definition toSnakeCase :: "string \<Rightarrow> string" where
  "toSnakeCase str =
     (let underscored = concat (map (\<lambda>c. if is_upper c then [CHR ''_'', c] else [c]) str);
          lowered = toLowerCase underscored
      in case lowered of
           c # cs \<Rightarrow> if c = CHR ''_'' then cs else lowered
         | [] \<Rightarrow> [])"

definition inferPrimaryKey :: "FieldMetadata list \<Rightarrow> string" where
  "inferPrimaryKey fs =
     (case find (\<lambda>f. FieldMetadata.name f = ''id'' \<or> endsWith (FieldMetadata.name f) ''_id''
                      \<or> FieldMetadata.name f = ''identity'') fs of
        Some idField \<Rightarrow> FieldMetadata.name idField
      | None \<Rightarrow> (case fs of f # _ \<Rightarrow> FieldMetadata.name f | [] \<Rightarrow> ''id''))"

definition actionsByType :: "(string \<times> string list) list" where
  "actionsByType =
     [(''user'', [''ban'', ''promote'']), (''player'', [''ban'', ''promote'']),
      (''room'', [''close'', ''moderate'']), (''session'', [''close'', ''moderate'']),
      (''config'', [''edit'', ''reset'']), (''setting'', [''edit'', ''reset''])]"

definition inferTableActions :: "string \<Rightarrow> FieldMetadata list \<Rightarrow> string list" where
  "inferTableActions tableName fs =
     [''view'', ''export'']
     @ (if list_ex (\<lambda>f. includes' (FieldMetadata.name f) ''id'') fs then [''search'', ''filter''] else [])
     @ (case find (\<lambda>(ty, _). includes' tableName ty) actionsByType of
          Some (_, typeActions) \<Rightarrow> typeActions
        | None \<Rightarrow> [])"

definition destructivePatterns :: "string list" where
  "destructivePatterns =
     [''delete'', ''remove'', ''destroy'', ''clear'', ''reset'', ''purge'', ''ban'', ''kick'',
      ''terminate'', ''cancel'', ''abort'']"

definition isDestructiveReducer :: "string \<Rightarrow> bool" where
  "isDestructiveReducer reducerName =
     list_ex (\<lambda>p. includes' (toLowerCase reducerName) p) destructivePatterns"

definition colorPatterns :: "(string \<times> string list) list" where
  "colorPatterns =
     [(''green'', [''create'', ''add'', ''register'']),
      (''blue'', [''update'', ''modify'', ''edit'']),
      (''emerald'', [''join'', ''connect'']),
      (''orange'', [''leave'', ''disconnect'']),
      (''purple'', [''open'', ''unlock'']),
      (''indigo'', [''generate'', ''produce''])]"

definition getReducerColor :: "string \<Rightarrow> bool \<Rightarrow> string" where
  "getReducerColor reducerName destructive =
     (if destructive then ''red''
      else (case first_pattern colorPatterns (toLowerCase reducerName) of
              Some found \<Rightarrow> found
            | None \<Rightarrow> ''gray''))"

text \<open>
  \<open>Array.prototype.sort\<close> with a comparator is stable; it is modelled as the stable
  insertion sort. \<open>localeCompare\<close> is the runtime's and is a parameter.
\<close>

fun insert_by :: "('a \<Rightarrow> 'a \<Rightarrow> int) \<Rightarrow> 'a \<Rightarrow> 'a list \<Rightarrow> 'a list" where
  "insert_by cmp x [] = [x]"
| "insert_by cmp x (y # ys) = (if cmp x y \<le> 0 then x # y # ys else y # insert_by cmp x ys)"

definition sort_by :: "('a \<Rightarrow> 'a \<Rightarrow> int) \<Rightarrow> 'a list \<Rightarrow> 'a list" where
  "sort_by cmp xs = foldr (insert_by cmp) xs []"

text \<open>
  One pass of the \<open>discoverTables\<close> loop: the entry pushed for \<open>tableName\<close>, or nothing
  when the accessor is missing (\<open>continue\<close>) or throws (caught and logged).
\<close>

definition table_entry ::
  "(AlgebraicType \<Rightarrow> string) \<Rightarrow> GeneratedModule \<Rightarrow> typeCache \<Rightarrow> string
     \<Rightarrow> TableMetadata option \<times> typeCache" where
  "table_entry safeStringify m typeCache tableName =
     (case map_of m tableName of
        None \<Rightarrow> (None, typeCache)
      | Some tableType \<Rightarrow>
          if item_null tableType then (None, typeCache)
          else (case getTypeScriptAlgebraicType tableType of
                  NoAccessor \<Rightarrow> (None, typeCache)
                | Throws \<Rightarrow> (None, typeCache)
                | Returns algebraicType \<Rightarrow>
                    (case analyzeAlgebraicType safeStringify m typeCache algebraicType tableName of
                       (fs, typeCache') \<Rightarrow>
                         (Some \<lparr>TableMetadata.name = toSnakeCase tableName,
                                displayName = formatDisplayName tableName,
                                primaryKey = inferPrimaryKey fs,
                                fields' = fs,
                                icon = getIconForItem tableName,
                                category = categorizeItem tableName,
                                description = generateTableDescription tableName fs,
                                actions = inferTableActions tableName fs\<rparr>,
                          typeCache'))))"

fun tables_loop ::
  "(AlgebraicType \<Rightarrow> string) \<Rightarrow> GeneratedModule \<Rightarrow> typeCache \<Rightarrow> string list
     \<Rightarrow> TableMetadata list \<times> typeCache" where
  "tables_loop safeStringify m typeCache [] = ([], typeCache)"
| "tables_loop safeStringify m typeCache (tableName # rest) =
     (case table_entry safeStringify m typeCache tableName of
        (entry, typeCache') \<Rightarrow>
          (case tables_loop safeStringify m typeCache' rest of
             (entries, typeCache'') \<Rightarrow>
               ((case entry of Some e \<Rightarrow> [e] | None \<Rightarrow> []) @ entries, typeCache'')))"

definition discoverTables ::
  "(string \<Rightarrow> string \<Rightarrow> int) \<Rightarrow> (AlgebraicType \<Rightarrow> string) \<Rightarrow> GeneratedModule \<Rightarrow> typeCache
     \<Rightarrow> TableMetadata list \<times> typeCache" where
  "discoverTables localeCompare safeStringify m typeCache =
     (case tables_loop safeStringify m typeCache (findTableTypes m) of
        (tables, typeCache') \<Rightarrow>
          (sort_by (\<lambda>a b. localeCompare (TableMetadata.displayName a) (TableMetadata.displayName b))
             tables,
           typeCache'))"

text \<open>
  \<open>ExampleGenerator.generateExampleArgs\<close> draws from \<open>Math.random\<close> and the faker library;
  it is a parameter that threads the state of the random source.
\<close>

definition reducer_entry ::
  "('g \<Rightarrow> FieldMetadata list \<Rightarrow> jsval \<times> 'g) \<Rightarrow> (AlgebraicType \<Rightarrow> string) \<Rightarrow> GeneratedModule
     \<Rightarrow> typeCache \<times> 'g \<Rightarrow> string \<Rightarrow> ReducerMetadata option \<times> typeCache \<times> 'g" where
  "reducer_entry generateExampleArgs safeStringify m st reducerName =
     (case st of
        (typeCache, g) \<Rightarrow>
          (case map_of m reducerName of
             None \<Rightarrow> (None, st)
           | Some reducerType \<Rightarrow>
               if item_null reducerType then (None, st)
               else (case getTypeScriptAlgebraicType reducerType of
                       NoAccessor \<Rightarrow> (None, st)
                     | Throws \<Rightarrow> (None, st)
                     | Returns algebraicType \<Rightarrow>
                         (case analyzeAlgebraicType safeStringify m typeCache algebraicType reducerName of
                            (fs, typeCache') \<Rightarrow>
                              (case generateExampleArgs g fs of
                                 (example, g') \<Rightarrow>
                                   (Some \<lparr>ReducerMetadata.name = toSnakeCase reducerName,
                                          displayName = formatDisplayName reducerName,
                                          description = generateReducerDescription reducerName fs,
                                          category = categorizeItem reducerName,
                                          fields' = fs,
                                          icon = getIconForItem reducerName,
                                          color = getReducerColor reducerName
                                                    (isDestructiveReducer reducerName),
                                          isDestructive = isDestructiveReducer reducerName,
                                          exampleArgs = example\<rparr>,
                                    typeCache', g'))))))"

fun reducers_loop ::
  "('g \<Rightarrow> FieldMetadata list \<Rightarrow> jsval \<times> 'g) \<Rightarrow> (AlgebraicType \<Rightarrow> string) \<Rightarrow> GeneratedModule
     \<Rightarrow> typeCache \<times> 'g \<Rightarrow> string list \<Rightarrow> ReducerMetadata list \<times> typeCache \<times> 'g" where
  "reducers_loop generateExampleArgs safeStringify m st [] = ([], st)"
| "reducers_loop generateExampleArgs safeStringify m st (reducerName # rest) =
     (case reducer_entry generateExampleArgs safeStringify m st reducerName of
        (entry, st') \<Rightarrow>
          (case reducers_loop generateExampleArgs safeStringify m st' rest of
             (entries, st'') \<Rightarrow>
               ((case entry of Some e \<Rightarrow> [e] | None \<Rightarrow> []) @ entries, st'')))"

definition compare_reducers :: "(string \<Rightarrow> string \<Rightarrow> int) \<Rightarrow> ReducerMetadata \<Rightarrow> ReducerMetadata \<Rightarrow> int" where
  "compare_reducers localeCompare a b =
     (if ReducerMetadata.category a \<noteq> ReducerMetadata.category b
      then localeCompare (ReducerMetadata.category a) (ReducerMetadata.category b)
      else localeCompare (ReducerMetadata.displayName a) (ReducerMetadata.displayName b))"

definition discoverReducers ::
  "(string \<Rightarrow> string \<Rightarrow> int) \<Rightarrow> ('g \<Rightarrow> FieldMetadata list \<Rightarrow> jsval \<times> 'g)
     \<Rightarrow> (AlgebraicType \<Rightarrow> string) \<Rightarrow> GeneratedModule \<Rightarrow> typeCache \<times> 'g
     \<Rightarrow> ReducerMetadata list \<times> typeCache \<times> 'g" where
  "discoverReducers localeCompare generateExampleArgs safeStringify m st =
     (case reducers_loop generateExampleArgs safeStringify m st (findReducerTypes m) of
        (rs, st') \<Rightarrow> (sort_by (compare_reducers localeCompare) rs, st'))"

subsection \<open>An example module\<close>

text \<open>
  Code-unit order of two strings, standing in for \<open>localeCompare\<close> in the examples, and a
  random source that is a counter.
\<close>

fun compare_strings :: "string \<Rightarrow> string \<Rightarrow> int" where
  "compare_strings [] [] = 0"
| "compare_strings [] (d # ds) = -1"
| "compare_strings (c # cs) [] = 1"
| "compare_strings (c # cs) (d # ds) =
     (if (of_char c :: nat) < of_char d then -1
      else if (of_char d :: nat) < of_char c then 1
      else compare_strings cs ds)"

definition counting_examples :: "nat \<Rightarrow> FieldMetadata list \<Rightarrow> jsval \<times> nat" where
  "counting_examples g fs = (JObject g [], Suc g)"

definition class_item :: "accessor \<Rightarrow> ModuleItem" where
  "class_item acc =
     \<lparr>item_typeof = ''function'', item_null = False, item_truthy = True,
      defined_props = [''name'', ''length'', ''prototype''], getTypeScriptAlgebraicType = acc,
      prototype_names = Some [(''constructor'', True)]\<rparr>"

definition example_module :: GeneratedModule where
  "example_module =
     [(''User'', class_item (Returns (ProductType (Some
         [ProductTypeElement (Some ''id'') U64, ProductTypeElement (Some ''nickname'') (option_of String)])))),
      (''UserTableHandle'', class_item NoAccessor),
      (''AuthEvent'', class_item (Returns (ProductType (Some
         [ProductTypeElement (Some ''id'') U64, ProductTypeElement (Some ''kind'') color_enum])))),
      (''AuthEventTableHandle'', class_item NoAccessor),
      (''BrokenTableHandle'', class_item NoAccessor),
      (''Broken'', class_item Throws),
      (''SetNickname'', class_item (Returns (ProductType (Some
         [ProductTypeElement (Some ''nickname'') String])))),
      (''BanUser'', class_item (Returns (ProductType (Some
         [ProductTypeElement (Some ''id'') U64])))),
      (''RemoteReducers'',
         (class_item NoAccessor)\<lparr>prototype_names :=
            Some [(''constructor'', True), (''setNickname'', True), (''onSetNickname'', True),
                  (''removeOnSetNickname'', True), (''banUser'', True), (''onBanUser'', True),
                  (''removeOnBanUser'', True)]\<rparr>)]"

text \<open>The symbols for which a discovery loop pushes an entry.\<close>

definition introspectable :: "GeneratedModule \<Rightarrow> string \<Rightarrow> bool" where
  "introspectable m n =
     (case map_of m n of
        None \<Rightarrow> False
      | Some item \<Rightarrow>
          \<not> item_null item
          \<and> (case getTypeScriptAlgebraicType item of Returns _ \<Rightarrow> True | _ \<Rightarrow> False))"

text \<open>What identifies and orders a catalog entry: its name and its sort keys.\<close>

definition table_key :: "TableMetadata \<Rightarrow> string \<times> string" where
  "table_key e = (TableMetadata.name e, TableMetadata.displayName e)"

definition reducer_key :: "ReducerMetadata \<Rightarrow> string \<times> string \<times> string" where
  "reducer_key e = (ReducerMetadata.name e, ReducerMetadata.category e, ReducerMetadata.displayName e)"

section \<open>Properties of the store slice\<close>

lemma findIndex_from_None:
  "findIndex_from p xs i = Inr None \<longleftrightarrow> (\<forall>x\<in>set xs. p x = Inr False)"
  by (induction xs arbitrary: i) (auto split: sum.splits bool.splits)

lemma findIndex_from_Some:
  "findIndex_from p xs i = Inr (Some j) \<longleftrightarrow>
     (\<exists>k<length xs. j = i + k \<and> p (xs ! k) = Inr True \<and> (\<forall>m<k. p (xs ! m) = Inr False))"
proof (induction xs arbitrary: i)
  case Nil
  then show ?case by simp
next
  case (Cons x xs)
  show ?case
  proof (cases "p x")
    case (Inl e)
    then show ?thesis
      apply auto
      subgoal for k by (cases k) auto
      done
  next
    case (Inr b)
    show ?thesis
    proof (cases b)
      case True
      with Inr show ?thesis
        apply auto
        subgoal for k by (cases k) auto
        done
    next
      case False
      with Inr have "findIndex_from p (x # xs) i = findIndex_from p xs (Suc i)" by simp
      moreover have "(\<exists>k<length (x # xs). j = i + k \<and> p ((x # xs) ! k) = Inr True \<and> (\<forall>m<k. p ((x # xs) ! m) = Inr False))
        \<longleftrightarrow> (\<exists>k<length xs. j = Suc i + k \<and> p (xs ! k) = Inr True \<and> (\<forall>m<k. p (xs ! m) = Inr False))"
        (is "?L \<longleftrightarrow> ?R")
      proof
        assume ?L
        then obtain k where k: "k < length (x # xs)" "j = i + k" "p ((x # xs) ! k) = Inr True"
          "\<forall>m<k. p ((x # xs) ! m) = Inr False" by blast
        from k(3) Inr False have "k \<noteq> 0" by (cases k) auto
        then obtain k' where k': "k = Suc k'" by (cases k) auto
        have "\<forall>m<k'. p (xs ! m) = Inr False"
        proof (intro allI impI)
          fix m assume "m < k'"
          then have "Suc m < k" using k' by simp
          with k(4) have "p ((x # xs) ! Suc m) = Inr False" by blast
          then show "p (xs ! m) = Inr False" by simp
        qed
        with k k' show ?R by (intro exI[of _ k']) auto
      next
        assume ?R
        then obtain k where k: "k < length xs" "j = Suc i + k" "p (xs ! k) = Inr True"
          "\<forall>m<k. p (xs ! m) = Inr False" by blast
        have "\<forall>m<Suc k. p ((x # xs) ! m) = Inr False"
        proof (intro allI impI)
          fix m assume "m < Suc k"
          then show "p ((x # xs) ! m) = Inr False"
            using k(4) Inr False by (cases m) auto
        qed
        with k show ?L by (intro exI[of _ "Suc k"]) auto
      qed
      ultimately show ?thesis using Cons.IH[of "Suc i"] by simp
    qed
  qed
qed

lemma findIndex_None: "findIndex p xs = Inr None \<longleftrightarrow> (\<forall>x\<in>set xs. p x = Inr False)"
  by (simp add: findIndex_def findIndex_from_None)

lemma findIndex_Some:
  "findIndex p xs = Inr (Some j) \<longleftrightarrow>
     (j < length xs \<and> p (xs ! j) = Inr True \<and> (\<forall>m<j. p (xs ! m) = Inr False))"
  by (auto simp add: findIndex_def findIndex_from_Some)




text \<open>
  With rows that are neither \<open>null\<close> nor \<open>undefined\<close> and a primary value that is not
  object-typed, the callback of the search cannot throw.
\<close>

lemma row_matches_total:
  assumes "item \<noteq> JNull" "item \<noteq> JUndefined" "typeof pv \<noteq> ''object''"
  shows "\<exists>b. row_matches pk pv item = Inr b"
proof -
  obtain v where "get_prop item pk = Inr v"
    using assms(1,2) by (cases item) auto
  then show ?thesis
    using assms(3) by (simp add: row_matches_def comparePrimaryKeys_def)
qed

text \<open>
  Claim C10, as amended. An \<open>updateTableRow\<close> or \<open>deleteTableRow\<close> returns the store
  unchanged and does not throw when the comparison is false on every row of the named
  table; this is so, in particular, when the rows are neither \<open>null\<close> nor \<open>undefined\<close>,
  the primary value is not object-typed and the comparison is true on no row. An
  \<open>insertTableRow\<close> (and likewise an update or delete) for a table name that is neither a
  key of the store nor the name of a member inherited from \<open>Object.prototype\<close> returns the
  store unchanged: the row is dropped.
\<close>

theorem no_match_leaves_state_unchanged:
  "(state_get s t = JArray r rows \<and> (\<forall>item\<in>set rows. row_matches pk pv item = Inr False) \<longrightarrow>
      updateTableRow s t pk pv row = Inr s \<and> deleteTableRow s t pk pv = Inr s)
   \<and> (state_get s t = JArray r rows \<and> typeof pv \<noteq> ''object''
        \<and> (\<forall>item\<in>set rows. item \<noteq> JNull \<and> item \<noteq> JUndefined
                               \<and> row_matches pk pv item \<noteq> Inr True) \<longrightarrow>
      updateTableRow s t pk pv row = Inr s \<and> deleteTableRow s t pk pv = Inr s)
   \<and> (map_of s t = None \<and> inherited t = None \<longrightarrow>
      insertTableRow s t row = Inr s \<and> updateTableRow s t pk pv row = Inr s
      \<and> deleteTableRow s t pk pv = Inr s)"
proof (intro conjI impI)
  assume h: "state_get s t = JArray r rows \<and> (\<forall>item\<in>set rows. row_matches pk pv item = Inr False)"
  then have "findIndex (row_matches pk pv) rows = Inr None"
    by (simp add: findIndex_None)
  with h show "updateTableRow s t pk pv row = Inr s" "deleteTableRow s t pk pv = Inr s"
    by (simp_all add: updateTableRow_def deleteTableRow_def)
next
  assume h: "state_get s t = JArray r rows \<and> typeof pv \<noteq> ''object''
        \<and> (\<forall>item\<in>set rows. item \<noteq> JNull \<and> item \<noteq> JUndefined
                               \<and> row_matches pk pv item \<noteq> Inr True)"
  have "\<forall>item\<in>set rows. row_matches pk pv item = Inr False"
  proof
    fix item assume i: "item \<in> set rows"
    with h obtain b where "row_matches pk pv item = Inr b"
      using row_matches_total[of item pv pk] by blast
    moreover from h i have "row_matches pk pv item \<noteq> Inr True" by blast
    ultimately show "row_matches pk pv item = Inr False" by (cases b) auto
  qed
  then have "findIndex (row_matches pk pv) rows = Inr None"
    by (simp add: findIndex_None)
  with h show "updateTableRow s t pk pv row = Inr s" "deleteTableRow s t pk pv = Inr s"
    by (simp_all add: updateTableRow_def deleteTableRow_def)
next
  assume "map_of s t = None \<and> inherited t = None"
  then have "state_get s t = JUndefined" by (simp add: state_get_def)
  then show "insertTableRow s t row = Inr s" "updateTableRow s t pk pv row = Inr s"
    "deleteTableRow s t pk pv = Inr s"
    by (simp_all add: insertTableRow_def updateTableRow_def deleteTableRow_def)
qed

theorem no_match_leaves_state_unchanged_witness:
  "updateTableRow example_state ''user'' ''id'' (JNum (Fin 7)) (example_row 3 7) = Inr example_state
   \<and> deleteTableRow example_state ''user'' ''id'' (JNum (Fin 7)) = Inr example_state
   \<and> insertTableRow example_state ''room'' (example_row 3 7) = Inr example_state"
  using no_match_leaves_state_unchanged[of example_state "''user''" 10
      "[example_row 1 1, example_row 2 2]" "''id''" "JNum (Fin 7)" "example_row 3 7"]
    no_match_leaves_state_unchanged[of example_state "''room''" 10
      "[]" "''id''" "JNum (Fin 7)" "example_row 3 7"]
  by (simp add: example_state_def example_row_def initialState_def state_get_def
      row_matches_def comparePrimaryKeys_def inherited_def Object_prototype_members_def)

text \<open>
  The claim as stated, for every store and without a throw, fails twice. A row whose key
  is \<open>null\<close> does not match an object-typed primary value, yet comparing them throws:
  \<open>typeof null\<close> is \<open>"object"\<close>, so the comparison reads a property of \<open>null\<close>. And in
  the initial store, where no table was ever initialized, the name \<open>constructor\<close> reads
  as the inherited function, which is truthy and has no \<open>push\<close>: the insert throws.
\<close>

theorem no_match_counterexample:
  "\<not> strict_eq JNull (JObject 7 [])
   \<and> updateTableRow (initialState @ [(''user'', JArray 10 [null_key_row])]) ''user'' ''id''
        (JObject 7 []) (example_row 3 7) = Inl TypeError
   \<and> deleteTableRow (initialState @ [(''user'', JArray 10 [null_key_row])]) ''user'' ''id''
        (JObject 7 []) = Inl TypeError
   \<and> map_of initialState ''constructor'' = None
   \<and> insertTableRow initialState ''constructor'' (example_row 3 7) = Inl TypeError"
  by (simp add: updateTableRow_def deleteTableRow_def insertTableRow_def initialState_def
      state_get_def null_key_row_def findIndex_def row_matches_def comparePrimaryKeys_def
      inherited_def Object_prototype_members_def builtin_def)

lemma strict_eq_primitive: "primitive_key v \<Longrightarrow> strict_eq x v = (x = v)"
  by (cases x; cases v) (auto simp: primitive_key_def)

lemma row_matches_primitive:
  "is_row item \<Longrightarrow> primitive_key v \<Longrightarrow> row_matches pk v item = Inr (pk_of pk item = v)"
  by (cases item) (auto simp: row_matches_def pk_of_def comparePrimaryKeys_def
      strict_eq_primitive primitive_key_def)

lemma spec_locate_Nil:
  assumes "list_all is_row rows" "primitive_key v" "spec_locate pk v rows = []"
  shows "findIndex (row_matches pk v) rows = Inr None"
proof -
  have "\<forall>x\<in>set rows. row_matches pk v x = Inr False"
  proof
    fix x assume x: "x \<in> set rows"
    then obtain i where i: "i < length rows" "rows ! i = x" by (auto simp: in_set_conv_nth)
    from assms(3) i have "pk_of pk x \<noteq> v"
      by (auto simp: spec_locate_def filter_empty_conv)
    moreover from x assms(1) have "is_row x" by (simp add: list_all_iff)
    ultimately show "row_matches pk v x = Inr False"
      using assms(2) by (simp add: row_matches_primitive)
  qed
  then show ?thesis by (simp add: findIndex_None)
qed

lemma spec_locate_single:
  assumes "list_all is_row rows" "primitive_key v" "spec_locate pk v rows = [i]"
  shows "findIndex (row_matches pk v) rows = Inr (Some i)"
proof -
  have mem: "\<And>j. j \<in> set (spec_locate pk v rows) \<longleftrightarrow> j < length rows \<and> pk_of pk (rows ! j) = v"
    by (auto simp: spec_locate_def)
  have i: "i < length rows" "pk_of pk (rows ! i) = v"
    using mem[of i] assms(3) by auto
  have others: "\<And>j. j < length rows \<Longrightarrow> pk_of pk (rows ! j) = v \<Longrightarrow> j = i"
    using mem assms(3) by auto
  have rows: "\<And>j. j < length rows \<Longrightarrow> is_row (rows ! j)"
    using assms(1) by (simp add: list_all_length)
  have "row_matches pk v (rows ! i) = Inr True"
    using i rows assms(2) by (simp add: row_matches_primitive)
  moreover have "\<forall>m<i. row_matches pk v (rows ! m) = Inr False"
  proof (intro allI impI)
    fix m assume m: "m < i"
    then have "m < length rows" using i by simp
    moreover have "pk_of pk (rows ! m) \<noteq> v" using others[of m] m i by auto
    ultimately show "row_matches pk v (rows ! m) = Inr False"
      using rows assms(2) by (simp add: row_matches_primitive)
  qed
  ultimately show ?thesis using i by (simp add: findIndex_Some)
qed

lemma state_get_set_same: "state_get (state_set s t v) t = v"
  by (simp add: state_get_def state_set_def update_conv')

lemma state_get_set_other: "k \<noteq> t \<Longrightarrow> state_get (state_set s t v) k = state_get s k"
  by (simp add: state_get_def state_set_def update_conv')

lemma list_all_update: "list_all P xs \<Longrightarrow> P y \<Longrightarrow> list_all P (xs[i := y])"
  by (auto simp: list_all_iff dest: set_update_subset_insert[THEN subsetD])

lemma list_all_take: "list_all P xs \<Longrightarrow> list_all P (take i xs)"
  by (auto simp: list_all_iff dest: in_set_takeD)

lemma list_all_drop: "list_all P xs \<Longrightarrow> list_all P (drop i xs)"
  by (auto simp: list_all_iff dest: in_set_dropD)

text \<open>
  On object-shaped rows and primitive keys the patch operations do what the replay of the
  specification says, wherever that replay is defined.
\<close>

lemma patch_refines_replay:
  assumes "state_get s t = JArray r rows" "list_all is_row rows" "wf_notification n"
    "spec_apply pk rows n = Some rows'"
  shows "\<exists>s'. patch t pk s n = Inr s' \<and> state_get s' t = JArray r rows' \<and> list_all is_row rows'
           \<and> (\<forall>k. k \<noteq> t \<longrightarrow> state_get s' k = state_get s k)"
proof (cases n)
  case (Insert row)
  with assms show ?thesis
    by (auto simp: handleTableInsert_def insertTableRow_def state_get_set_same state_get_set_other)
next
  case (Update v row)
  with assms have wf: "primitive_key v" "is_row row" by auto
  consider "spec_locate pk v rows = []" | i where "spec_locate pk v rows = [i]"
    using assms(4) Update by (auto split: list.splits)
  then show ?thesis
  proof cases
    case 1
    then have "findIndex (row_matches pk v) rows = Inr None"
      using spec_locate_Nil assms(2) wf(1) by blast
    with 1 assms Update show ?thesis
      by (auto simp: handleTableUpdate_def updateTableRow_def)
  next
    case 2
    then have "findIndex (row_matches pk v) rows = Inr (Some i)"
      using spec_locate_single assms(2) wf(1) by blast
    with 2 assms Update wf show ?thesis
      by (auto simp: handleTableUpdate_def updateTableRow_def state_get_set_same
          state_get_set_other list_all_update)
  qed
next
  case (Delete v)
  with assms have wf: "primitive_key v" by auto
  consider "spec_locate pk v rows = []" | i where "spec_locate pk v rows = [i]"
    using assms(4) Delete by (auto split: list.splits)
  then show ?thesis
  proof cases
    case 1
    then have "findIndex (row_matches pk v) rows = Inr None"
      using spec_locate_Nil assms(2) wf(1) by blast
    with 1 assms Delete show ?thesis
      by (auto simp: handleTableDelete_def deleteTableRow_def)
  next
    case 2
    then have "findIndex (row_matches pk v) rows = Inr (Some i)"
      using spec_locate_single assms(2) wf(1) by blast
    with 2 assms Delete wf show ?thesis
      by (auto simp: handleTableDelete_def deleteTableRow_def state_get_set_same
          state_get_set_other list_all_take list_all_drop)
  qed
qed

lemma patch_all_refines_replay:
  assumes "state_get s t = JArray r rows" "list_all is_row rows" "list_all wf_notification ns"
    "spec_replay pk rows ns = Some rows'"
  shows "\<exists>s'. patch_all t pk s ns = Inr s' \<and> state_get s' t = JArray r rows'
           \<and> (\<forall>k. k \<noteq> t \<longrightarrow> state_get s' k = state_get s k)"
  using assms
proof (induction ns arbitrary: s rows)
  case Nil
  then show ?case by simp
next
  case (Cons n ns)
  from Cons.prems(4) obtain rows1 where r1: "spec_apply pk rows n = Some rows1"
    "spec_replay pk rows1 ns = Some rows'"
    by (auto split: option.splits)
  from Cons.prems have "wf_notification n" "list_all wf_notification ns" by auto
  with patch_refines_replay[OF Cons.prems(1,2) _ r1(1)]
  obtain s1 where s1: "patch t pk s n = Inr s1" "state_get s1 t = JArray r rows1"
    "list_all is_row rows1" "\<forall>k. k \<noteq> t \<longrightarrow> state_get s1 k = state_get s k"
    by blast
  from Cons.IH[OF s1(2,3) \<open>list_all wf_notification ns\<close> r1(2)]
  obtain s' where "patch_all t pk s1 ns = Inr s'" "state_get s' t = JArray r rows'"
    "\<forall>k. k \<noteq> t \<longrightarrow> state_get s' k = state_get s1 k" by blast
  with s1 show ?case by auto
qed

lemma patch_all_refines_replay_example:
  "spec_replay ''id'' [example_row 1 1, example_row 2 2]
        [Insert (example_row 3 3), Update (JNum (Fin 2)) (example_row 4 2), Delete (JNum (Fin 1))]
     = Some [example_row 4 2, example_row 3 3]
   \<and> patch_all ''user'' ''id'' example_state
        [Insert (example_row 3 3), Update (JNum (Fin 2)) (example_row 4 2), Delete (JNum (Fin 1))]
     = Inr (initialState @ [(''user'', JArray 10 [example_row 4 2, example_row 3 3])])"
  by (simp add: spec_locate_def pk_of_def example_row_def example_state_def upt_rec
      handleTableInsert_def handleTableUpdate_def handleTableDelete_def insertTableRow_def
      updateTableRow_def deleteTableRow_def state_get_def state_set_def initialState_def
      findIndex_def row_matches_def comparePrimaryKeys_def)

text \<open>
  A table notification replaces the mirror by the rows read from the SDK's cache, whatever
  the mirror held.
\<close>

lemma updateTableData_reseeds:
  "t \<noteq> ''__proto__'' \<Longrightarrow> state_get (updateTableData s t fresh (Inr rows)) t = JArray fresh rows"
  by (simp add: updateTableData_def setTableData_def state_get_set_same)


section \<open>Properties of the connection state machine\<close>

lemmas hook_defs = onConnectError_def connect_catch_def setTimeout_def dispatch_def
      setConnecting_def setIntentionalDisconnect_def connect_def onConnect_def onDisconnect_def
      disconnect_def remove_nth_def

text \<open>
  Claim C4. When a connection failure of attempt \<open>n\<close> (counted from 0) is handled, by
  \<open>onConnectError\<close> or by the \<open>catch\<close> branch, with the intentional-disconnect flag
  clear and \<open>n < maxRetries\<close>, exactly one timer is added: it calls \<open>connect(n + 1)\<close>
  and is due \<open>retryBackoffMultiplier * 1000 * (n + 1)\<close> milliseconds after the failure;
  with no other timer pending it is the next to run, and it runs at that instant. When
  \<open>n \<ge> maxRetries\<close>, or the flag is set when the failure is handled, no timer is added.
\<close>

theorem retry_delay_and_budget:
  "(\<not> isIntentionalDisconnect (connectionState h) \<and> of_nat n < maxRetries cfg \<longrightarrow>
      timers (onConnectError fmt cfg c n msg h)
        = timers h @ [(now h + retryBackoffMultiplier cfg * 1000 * (of_nat n + 1), RetryConnect c (n + 1))]
      \<and> timers (connect_catch fmt cfg c n err h)
        = timers h @ [(now h + retryBackoffMultiplier cfg * 1000 * (of_nat n + 1), RetryConnect c (n + 1))])
   \<and> (\<not> isIntentionalDisconnect (connectionState h) \<and> of_nat n < maxRetries cfg
        \<and> timers h = [] \<and> 0 \<le> retryBackoffMultiplier cfg \<longrightarrow>
      step fmt cfg (onConnectError fmt cfg c n msg h) (FireNext res)
        = connect fmt cfg c (n + 1) res
            ((onConnectError fmt cfg c n msg h)
               \<lparr>now := now h + retryBackoffMultiplier cfg * 1000 * (of_nat n + 1), timers := []\<rparr>))
   \<and> (maxRetries cfg \<le> of_nat n \<or> isIntentionalDisconnect (connectionState h) \<longrightarrow>
      timers (onConnectError fmt cfg c n msg h) = timers h
      \<and> timers (connect_catch fmt cfg c n err h) = timers h)"
proof (intro conjI impI)
  assume "\<not> isIntentionalDisconnect (connectionState h) \<and> of_nat n < maxRetries cfg"
  then show "timers (onConnectError fmt cfg c n msg h)
        = timers h @ [(now h + retryBackoffMultiplier cfg * 1000 * (of_nat n + 1), RetryConnect c (n + 1))]"
    "timers (connect_catch fmt cfg c n err h)
        = timers h @ [(now h + retryBackoffMultiplier cfg * 1000 * (of_nat n + 1), RetryConnect c (n + 1))]"
    by (simp_all add: onConnectError_def connect_catch_def setTimeout_def dispatch_def
        setConnecting_def Let_def)
next
  assume a: "\<not> isIntentionalDisconnect (connectionState h) \<and> of_nat n < maxRetries cfg
        \<and> timers h = [] \<and> 0 \<le> retryBackoffMultiplier cfg"
  then have t: "timers (onConnectError fmt cfg c n msg h)
        = [(now h + retryBackoffMultiplier cfg * 1000 * (of_nat n + 1), RetryConnect c (n + 1))]"
    and nw: "now (onConnectError fmt cfg c n msg h) = now h"
    by (simp_all add: onConnectError_def setTimeout_def dispatch_def setConnecting_def Let_def)
  have "0 \<le> retryBackoffMultiplier cfg * 1000 * (of_nat n + 1)"
    using a by simp
  then have "max (now h) (now h + retryBackoffMultiplier cfg * 1000 * (of_nat n + 1))
      = now h + retryBackoffMultiplier cfg * 1000 * (of_nat n + 1)"
    by simp
  then show "step fmt cfg (onConnectError fmt cfg c n msg h) (FireNext res)
        = connect fmt cfg c (n + 1) res
            ((onConnectError fmt cfg c n msg h)
               \<lparr>now := now h + retryBackoffMultiplier cfg * 1000 * (of_nat n + 1), timers := []\<rparr>)"
    by (simp add: t nw remove_nth_def)
next
  assume "maxRetries cfg \<le> of_nat n \<or> isIntentionalDisconnect (connectionState h)"
  then show "timers (onConnectError fmt cfg c n msg h) = timers h"
      "timers (connect_catch fmt cfg c n err h) = timers h"
    by (auto simp: onConnectError_def connect_catch_def setTimeout_def dispatch_def
      setConnecting_def setIntentionalDisconnect_def Let_def)
qed

theorem retry_delay_and_budget_witness:
  "timers (onConnectError decimal default_config False 1 ''refused'' initial_hook)
      = [(4000, RetryConnect False 2)]
   \<and> timers (connect_catch decimal default_config False 1 None initial_hook)
      = [(4000, RetryConnect False 2)]
   \<and> now (step decimal default_config
            (onConnectError decimal default_config False 1 ''refused'' initial_hook) (FireNext Built))
      = 4000
   \<and> timers (onConnectError decimal default_config False 3 ''refused'' initial_hook) = []
   \<and> timers (connect_catch decimal default_config False 3 None initial_hook) = []"
  using retry_delay_and_budget[of initial_hook 1 default_config decimal False "''refused''" None Built]
    retry_delay_and_budget[of initial_hook 3 default_config decimal False "''refused''" None Built]
  by (simp add: initial_hook_def default_config_def connect_def dispatch_def
      setConnecting_def setIntentionalDisconnect_def onConnectError_def setTimeout_def Let_def)

text \<open>
  Every \<open>connect\<close> that passes its entry guard clears the intentional-disconnect flag,
  so the flag does not persist into a fresh \<open>connect()\<close>.
\<close>

lemma connect_clears_intentional_flag:
  "\<not> isConnecting (connectionState h) \<Longrightarrow> \<not> c \<Longrightarrow>
     \<not> isIntentionalDisconnect (connectionState (connect fmt cfg c n res h))"
  by (cases res) (auto simp: hook_defs Let_def split: option.splits)

text \<open>
  Claim C5 says that once \<open>disconnect()\<close> has set the intentional-disconnect flag, no
  retry of the earlier error path is ever executed. The code checks the flag when a failure
  is handled, not when a retry timer runs: on \<open>stale_retry_trace\<close> the store is
  \<open>disconnected\<close> with the flag set and the retry of the failed first attempt pending, and
  when that timer runs at 2000 ms, \<open>connect(1)\<close> passes its guard, clears the flag, moves
  the store to \<open>connecting\<close> and opens a new session.
\<close>

theorem stale_retry_runs_after_disconnect:
  "isIntentionalDisconnect (connectionState (run decimal default_config initial_hook stale_retry_trace))
   \<and> state_get (store (run decimal default_config initial_hook stale_retry_trace)) ''connectionStatus''
       = JStr ''disconnected''
   \<and> timers (run decimal default_config initial_hook stale_retry_trace)
       = [(2000, RetryConnect False 1), (2500, ClearIntentionalDisconnect)]
   \<and> run decimal default_config initial_hook (stale_retry_trace @ [FireNext Built])
       = \<lparr>store = [(''connectionStatus'', JStr ''connecting''), (''connection'', JNull),
                   (''identity'', JStr ''c0ffee''), (''error'', JNull)],
          connectionState = \<lparr>isConnecting = True, isIntentionalDisconnect = False\<rparr>,
          localStorage_token = Some ''tok'', now = 2000,
          timers = [(2500, ClearIntentionalDisconnect)],
          attempts = [(False, 1, Some ''tok'')], subscribed = [example_conn],
          closed = [example_conn]\<rparr>"
  by (simp add: run_def stale_retry_trace_def initial_hook_def default_config_def hook_defs
      initialState_def state_get_def state_set_def setConnectionStatus_def setError_def
      clearError_def setConnection_def setIdentity_def clearAllTables_def example_conn_def Let_def)

text \<open>
  When \<open>disconnect()\<close> is followed at once by \<open>connect()\<close> and the new handshake succeeds
  before the old timer is due, the stale retry runs as well: its \<open>connect\<close> closure
  captured \<open>isConnected = false\<close>, nothing is connecting, so it passes the guard while the
  new session is live, sets the status back to \<open>connecting\<close> and opens another session.
\<close>

lemma stale_retry_runs_after_reconnect:
  "state_get (store (run decimal default_config initial_hook stale_retry_reconnect_trace))
       ''connectionStatus'' = JStr ''connected''
   \<and> run decimal default_config initial_hook (stale_retry_reconnect_trace @ [FireNext Built])
       = \<lparr>store = [(''connectionStatus'', JStr ''connecting''), (''connection'', JObject 101 []),
                   (''identity'', JStr ''c0ffee''), (''error'', JNull)],
          connectionState = \<lparr>isConnecting = True, isIntentionalDisconnect = False\<rparr>,
          localStorage_token = Some ''tok2'', now = 2000,
          timers = [(2500, ClearIntentionalDisconnect), (2100, SetupSubscriptions (JObject 101 []))],
          attempts = [(False, 1, Some ''tok2'')], subscribed = [example_conn],
          closed = [example_conn]\<rparr>"
  by (simp add: run_def stale_retry_reconnect_trace_def stale_retry_trace_def initial_hook_def
      default_config_def hook_defs initialState_def state_get_def state_set_def
      setConnectionStatus_def setError_def clearError_def setConnection_def setIdentity_def
      clearAllTables_def example_conn_def Let_def)

section \<open>Properties of the reducer invoker\<close>

text \<open>
  Claim C2, as amended. For a reducer whose fields are \<open>a\<close> of type \<open>u32\<close>, required,
  and \<open>b\<close> of type \<open>string\<close>, optional, in that order, and a runtime whose \<open>Number\<close>
  reads \<open>"5"\<close> as 5: the bag \<open>{a: "5"}\<close> is marshalled to the positional list
  \<open>(5, undefined)\<close>; the bag \<open>{a: "5", b: ""}\<close> also to \<open>(5, undefined)\<close>, the empty
  optional being elided; and the empty bag to \<open>(undefined, undefined)\<close>, without an error:
  a missing required field is passed as \<open>undefined\<close>.
\<close>

theorem invoke_marshals_positionally:
  assumes "FieldMetadata.name fa = ''a''" "type fa = ''u32''" "\<not> isOptional fa"
    and "FieldMetadata.name fb = ''b''" "type fb = ''string''" "isOptional fb"
    and "to_Number rt (JStr ''5'') = Inr (JNum (Fin 5))"
    and "to_String rt (JStr '''') = Inr (JStr '''')"
  shows "marshal rt [fa, fb] (JObject r [(''a'', JStr ''5'')]) = Inr [JNum (Fin 5), JUndefined]
    \<and> marshal rt [fa, fb] (JObject r [(''a'', JStr ''5''), (''b'', JStr '''')])
        = Inr [JNum (Fin 5), JUndefined]
    \<and> marshal rt [fa, fb] (JObject r []) = Inr [JUndefined, JUndefined]"
  using assms
  by (simp add: marshal_def convertArgsToObject_def orderedArg_def convertValueByType_def)

theorem invoke_marshals_positionally_witness:
  "marshal example_runtime [example_field ''a'' ''u32'' False, example_field ''b'' ''string'' True]
      (JObject 1 [(''a'', JStr ''5'')]) = Inr [JNum (Fin 5), JUndefined]
   \<and> marshal example_runtime [example_field ''a'' ''u32'' False, example_field ''b'' ''string'' True]
      (JObject 1 [(''a'', JStr ''5''), (''b'', JStr '''')]) = Inr [JNum (Fin 5), JUndefined]
   \<and> marshal example_runtime [example_field ''a'' ''u32'' False, example_field ''b'' ''string'' True]
      (JObject 1 []) = Inr [JUndefined, JUndefined]"
  by (rule invoke_marshals_positionally)
    (simp_all add: example_field_def example_runtime_def is_digit_def decimal_value_def)

text \<open>
  The claim as stated has the empty bag fall back to the catalog's example value. The
  invoker never reads \<open>exampleArgs\<close>: with the example \<open>{a: 7}\<close> in the catalog, the
  remote call is issued with \<open>(undefined, undefined)\<close>.
\<close>

theorem invoke_example_fallback_counterexample:
  "callReducer example_runtime (Some example_session)
     [example_reducer ''set_score''
        [example_field ''a'' ''u32'' False, example_field ''b'' ''string'' True]
        (JObject 2 [(''a'', JNum (Fin 7))])]
     ''set_score'' (JObject 1 [])
   = (Inr JUndefined, [(''setScore'', [JUndefined, JUndefined])])"
  by (simp add: callReducer_def example_session_def example_reducer_def example_field_def
      convertArgsToObject_def orderedArg_def is_lower_def upper_char_def lower_alphabet_def upper_alphabet_def)

text \<open>
  Claim C6, as amended. \<open>callReducer\<close> rejects with the not-connected error when there is
  no session, with the metadata-not-found error when the name is absent from the catalog,
  and with the method-not-found error when the session's reducer namespace has no callable
  member of the camel-cased name; in each of these cases no remote call is issued. In every
  other case it marshals the arguments and, unless a conversion throws (then it rejects
  with that error and issues no call), issues exactly one remote call and settles as that
  call does, so it also rejects when the remote method rejects.
\<close>

theorem invoke_failures:
  "callReducer rt None catalog nm args = (Inl (Error ''Not connected to SpacetimeDB''), [])
   \<and> (find (\<lambda>r. ReducerMetadata.name r = nm) catalog = None \<longrightarrow>
        callReducer rt (Some conn) catalog nm args
          = (Inl (Error (''Reducer metadata not found: '' @ nm)), []))
   \<and> (find (\<lambda>r. ReducerMetadata.name r = nm) catalog = Some meta
        \<and> (\<forall>f. map_of (reducers conn) (toCamelCase nm) \<noteq> Some (Method f)) \<longrightarrow>
        callReducer rt (Some conn) catalog nm args
          = (Inl (Error (''Reducer method not found: '' @ toCamelCase nm)), []))
   \<and> (find (\<lambda>r. ReducerMetadata.name r = nm) catalog = Some meta
        \<and> map_of (reducers conn) (toCamelCase nm) = Some (Method f) \<longrightarrow>
        callReducer rt (Some conn) catalog nm args
          = (case marshal rt (ReducerMetadata.fields' meta) args of
               Inl e \<Rightarrow> (Inl e, [])
             | Inr orderedArgs \<Rightarrow> (f orderedArgs, [(toCamelCase nm, orderedArgs)])))"
proof (intro conjI impI)
  show "callReducer rt None catalog nm args = (Inl (Error ''Not connected to SpacetimeDB''), [])"
    by (simp add: callReducer_def)
next
  assume "find (\<lambda>r. ReducerMetadata.name r = nm) catalog = None"
  then show "callReducer rt (Some conn) catalog nm args
          = (Inl (Error (''Reducer metadata not found: '' @ nm)), [])"
    by (simp add: callReducer_def)
next
  assume a: "find (\<lambda>r. ReducerMetadata.name r = nm) catalog = Some meta
        \<and> (\<forall>f. map_of (reducers conn) (toCamelCase nm) \<noteq> Some (Method f))"
  then show "callReducer rt (Some conn) catalog nm args
          = (Inl (Error (''Reducer method not found: '' @ toCamelCase nm)), [])"
    by (auto simp: callReducer_def Let_def split: option.splits member.splits)
next
  assume "find (\<lambda>r. ReducerMetadata.name r = nm) catalog = Some meta
        \<and> map_of (reducers conn) (toCamelCase nm) = Some (Method f)"
  then show "callReducer rt (Some conn) catalog nm args
          = (case marshal rt (ReducerMetadata.fields' meta) args of
               Inl e \<Rightarrow> (Inl e, [])
             | Inr orderedArgs \<Rightarrow> (f orderedArgs, [(toCamelCase nm, orderedArgs)]))"
    by (auto simp: callReducer_def marshal_def Let_def split: sum.splits)
qed

theorem invoke_failures_witness:
  "callReducer example_runtime None [example_reducer ''add_user'' [] JNull] ''add_user'' (JObject 1 [])
     = (Inl (Error ''Not connected to SpacetimeDB''), [])
   \<and> callReducer example_runtime (Some example_session) [example_reducer ''add_user'' [] JNull]
       ''drop_all'' (JObject 1 [])
     = (Inl (Error ''Reducer metadata not found: drop_all''), [])
   \<and> callReducer example_runtime (Some example_session) [example_reducer ''ban_user'' [] JNull]
       ''ban_user'' (JObject 1 [])
     = (Inl (Error ''Reducer method not found: banUser''), [])
   \<and> callReducer example_runtime (Some example_session) [example_reducer ''set_score'' [] JNull]
       ''set_score'' (JObject 1 [])
     = (Inr JUndefined, [(''setScore'', [])])"
  using invoke_failures[of example_runtime "[example_reducer ''add_user'' [] JNull]" "''add_user''"
      "JObject 1 []" example_session]
    invoke_failures[of example_runtime "[example_reducer ''add_user'' [] JNull]" "''drop_all''"
      "JObject 1 []" example_session]
    invoke_failures[of example_runtime "[example_reducer ''ban_user'' [] JNull]" "''ban_user''"
      "JObject 1 []" example_session "example_reducer ''ban_user'' [] JNull"]
    invoke_failures[of example_runtime "[example_reducer ''set_score'' [] JNull]" "''set_score''"
      "JObject 1 []" example_session "example_reducer ''set_score'' [] JNull" "\<lambda>args. Inr JUndefined"]
  by (simp add: example_reducer_def example_session_def is_lower_def upper_char_def lower_alphabet_def upper_alphabet_def marshal_def
      convertArgsToObject_def)

text \<open>
  The claim as stated has these three conditions as the only failures. With a session, a
  known reducer and a callable method, the call still rejects when the module rejects it,
  and when \<open>BigInt\<close> throws on the text given for a \<open>u64\<close> field.
\<close>

theorem invoke_fails_exactly_counterexample:
  "callReducer example_runtime (Some example_session) [example_reducer ''add_user'' [] JNull]
      ''add_user'' (JObject 1 [])
     = (Inl (Error ''rejected by the module''), [(''addUser'', [])])
   \<and> callReducer example_runtime (Some example_session)
        [example_reducer ''set_score'' [example_field ''a'' ''u64'' False] JNull]
        ''set_score'' (JObject 1 [(''a'', JStr ''abc'')])
     = (Inl SyntaxError, [])"
  by (simp add: callReducer_def example_reducer_def example_session_def is_lower_def upper_char_def lower_alphabet_def upper_alphabet_def
      convertArgsToObject_def example_field_def orderedArg_def convertValueByType_def
      example_runtime_def is_digit_def)

section \<open>Properties of the type analyzer\<close>

lemmas char_defs = toLowerCase_def lower_char_def upper_char_def lower_alphabet_def
  upper_alphabet_def is_lower_def is_upper_def

text \<open>
  The recursive search of \<open>getTypeString\<close> is the source's \<open>find\<close> followed by the
  recursive call on the payload.
\<close>

lemma some_type_string_find:
  "some_type_string vs = map_option getTypeString (some_payload vs)"
proof (induction vs)
  case Nil
  then show ?case by (simp add: some_payload_def)
next
  case (Cons v vs)
  obtain n ty where v: "v = SumTypeVariant n ty" by (cases v)
  show ?case
  proof (cases ty)
    case None
    with v Cons show ?thesis by (auto simp: some_payload_def lower_name_def)
  next
    case (Some t)
    with v Cons show ?thesis by (auto simp: some_payload_def lower_name_def)
  qed
qed

lemma option_wrapper_names:
  "is_option_wrapper vs \<Longrightarrow>
     length vs = 2 \<and> Some ''some'' \<in> set (map lower_name vs) \<and> Some ''none'' \<in> set (map lower_name vs)"
  by (auto simp: is_option_wrapper_def split: list.splits)

lemma option_wrapper_type_string:
  assumes "is_option_wrapper vs" "some_payload vs = Some P"
  shows "getTypeString (SumType (Some vs)) = getTypeString P"
  using option_wrapper_names[OF assms(1)] assms(2)
  by (simp add: some_type_string_find)

lemma option_wrapper_optional:
  "is_option_wrapper vs \<Longrightarrow> isOptionalType (SumType (Some vs))"
  using option_wrapper_names[of vs] by (simp add: isOptionalType_def)

text \<open>
  Claim C1, as amended. For every sum type whose variants are exactly two, named
  \<open>some\<close> and \<open>none\<close> in any casing, and whose \<open>some\<close> variant carries a payload: when the
  sum is the type of an element of a product, the descriptor the analyzer produces for
  that element has \<open>isOptional = true\<close>, carries the element's name, has no enum values,
  and its type tag is the type string of the payload; the tag is \<open>"enum"\<close> only when that
  is the payload's own type string.
\<close>

theorem optional_wrapper_element:
  assumes "is_option_wrapper vs" "some_payload vs = Some P"
    and "i < length els" "element_type (els ! i) = SumType (Some vs)"
  shows "isOptional (analyzeProductType (Some els) ! i)
    \<and> type (analyzeProductType (Some els) ! i) = getTypeString P
    \<and> enumValues (analyzeProductType (Some els) ! i) = None
    \<and> FieldMetadata.name (analyzeProductType (Some els) ! i) = name_or (element_name (els ! i)) ''unknown''
    \<and> length (analyzeProductType (Some els)) = length els"
  using assms option_wrapper_type_string[OF assms(1,2)] option_wrapper_optional[OF assms(1)]
  by (simp add: analyzeProductType_def extractEnumValues_def)

theorem optional_wrapper_element_witness:
  "is_option_wrapper [SumTypeVariant (Some ''None'') None, SumTypeVariant (Some ''SOME'') (Some U32)]
   \<and> isOptional (analyzeProductType (Some [ProductTypeElement (Some ''id'') U64,
        ProductTypeElement (Some ''age'')
          (SumType (Some [SumTypeVariant (Some ''None'') None, SumTypeVariant (Some ''SOME'') (Some U32)]))]) ! 1)
   \<and> type (analyzeProductType (Some [ProductTypeElement (Some ''id'') U64,
        ProductTypeElement (Some ''age'')
          (SumType (Some [SumTypeVariant (Some ''None'') None, SumTypeVariant (Some ''SOME'') (Some U32)]))]) ! 1)
       = ''u32''"
  using optional_wrapper_element[of
      "[SumTypeVariant (Some ''None'') None, SumTypeVariant (Some ''SOME'') (Some U32)]" U32 1
      "[ProductTypeElement (Some ''id'') U64,
        ProductTypeElement (Some ''age'')
          (SumType (Some [SumTypeVariant (Some ''None'') None, SumTypeVariant (Some ''SOME'') (Some U32)]))]"]
  by (simp add: is_option_wrapper_def some_payload_def lower_name_def toLowerCase_def
      lower_char_def lower_alphabet_def upper_alphabet_def)

text \<open>
  The claim as stated also covers the sum passed to the analyzer as the top-level type, and
  rules the tag \<open>"enum"\<close> out. A top-level sum goes through \<open>analyzeSumType\<close>, which
  does not look for the wrapper: the optional \<open>u32\<close> yields one descriptor tagged
  \<open>"enum"\<close> with \<open>isOptional = false\<close>. As an element, an optional wrapper around a true
  enum is tagged \<open>"enum"\<close>, the tag of what it wraps.
\<close>

theorem optional_wrapper_counterexample:
  "is_option_wrapper [SumTypeVariant (Some ''some'') (Some U32), SumTypeVariant (Some ''none'') None]
   \<and> fst (analyzeAlgebraicType render [] no_cache (option_of U32) ''age'')
       = [\<lparr>FieldMetadata.name = ''age'', type = ''enum'', isOptional = False, isArray = False,
           enumValues = Some [''some'', ''none''], displayName = ''Age'', inputType = ''select'',
           validation = Some \<lparr>required = Some True, min_v = None, max_v = None, pattern = None\<rparr>,
           enumConstructor = Some None\<rparr>]
   \<and> map type (analyzeProductType (Some [ProductTypeElement (Some ''tint'') (option_of color_enum)]))
       = [''enum'']"
  by (simp add: is_option_wrapper_def lower_name_def char_defs analyzeAlgebraicType_def
      no_cache_def option_of_def color_enum_def analyzeSumType_def enhanceEnumField_def
      findEnumConstructor_def name_or_def formatDisplayName_def capitalize_def is_separator_def
      analyzeProductType_def Let_def)

text \<open>
  Claim C8. For every type tree and every second input with the same structural
  signature (the cache key), two successive calls of the analyzer return the same
  descriptor list, in the same order and with the same content, whatever the context
  names; the second call is answered from the cache: the cache holds the first result
  under the key and the call leaves the cache as it was.
\<close>

theorem analyze_memoized:
  assumes "sig T = sig T'"
  shows "(case analyzeAlgebraicType sig m c0 T n of
            (f1, c1) \<Rightarrow>
              (case analyzeAlgebraicType sig m c1 T' n' of
                 (f2, c2) \<Rightarrow> f2 = f1 \<and> c2 = c1 \<and> c1 (sig T') = Some f1))"
  using assms by (auto simp: analyzeAlgebraicType_def Let_def split: option.splits)

theorem analyze_memoized_witness:
  "render (ProductType (Some [ProductTypeElement (Some ''id'') U64]))
     = render (ProductType (Some [ProductTypeElement (Some ''id'') U64]))
   \<and> (case analyzeAlgebraicType render [] no_cache
             (ProductType (Some [ProductTypeElement (Some ''id'') U64])) ''User'' of
        (f1, c1) \<Rightarrow>
          (case analyzeAlgebraicType render [] c1
                  (ProductType (Some [ProductTypeElement (Some ''id'') U64])) ''Player'' of
             (f2, c2) \<Rightarrow> f2 = f1 \<and> c2 = c1
               \<and> c1 (render (ProductType (Some [ProductTypeElement (Some ''id'') U64]))) = Some f1))"
  using analyze_memoized[where sig = render
      and T = "ProductType (Some [ProductTypeElement (Some ''id'') U64])"
      and T' = "ProductType (Some [ProductTypeElement (Some ''id'') U64])" and m = "[]" and ?c0.0 = no_cache
      and n = "''User''" and n' = "''Player''"]
  by simp

section \<open>Properties of discovery\<close>

text \<open>The sort moves entries by their sort keys only.\<close>

lemma insert_by_map:
  assumes "\<And>a b. cmp a b = cmp' (f a) (f b)"
  shows "map f (insert_by cmp x ys) = insert_by cmp' (f x) (map f ys)"
  by (induction ys) (simp_all add: assms)

lemma sort_by_map:
  assumes "\<And>a b. cmp a b = cmp' (f a) (f b)"
  shows "map f (sort_by cmp xs) = sort_by cmp' (map f xs)"
  unfolding sort_by_def
  by (induction xs) (simp_all add: insert_by_map[where cmp = cmp and cmp' = cmp' and f = f, OF assms])

text \<open>
  The names and sort keys of the entries a discovery loop pushes depend on the module
  alone, not on the analyzer's cache or on the random source.
\<close>

lemma table_entry_key:
  "map table_key (case fst (table_entry sig m c n) of Some e \<Rightarrow> [e] | None \<Rightarrow> [])
     = (if introspectable m n then [(toSnakeCase n, formatDisplayName n)] else [])"
  by (auto simp: table_entry_def introspectable_def table_key_def
      split: option.splits accessor.splits prod.splits)

lemma tables_loop_keys:
  "map table_key (fst (tables_loop sig m c ns))
     = map (\<lambda>n. (toSnakeCase n, formatDisplayName n)) (filter (introspectable m) ns)"
proof (induction ns arbitrary: c)
  case Nil
  then show ?case by simp
next
  case (Cons n ns)
  obtain entry c1 where e: "table_entry sig m c n = (entry, c1)" by (cases "table_entry sig m c n")
  obtain entries c2 where l: "tables_loop sig m c1 ns = (entries, c2)"
    by (cases "tables_loop sig m c1 ns")
  have "map table_key (case entry of Some e \<Rightarrow> [e] | None \<Rightarrow> [])
     = (if introspectable m n then [(toSnakeCase n, formatDisplayName n)] else [])"
    using table_entry_key[of sig m c n] e by simp
  moreover have "map table_key entries
     = map (\<lambda>n. (toSnakeCase n, formatDisplayName n)) (filter (introspectable m) ns)"
    using Cons.IH[of c1] l by simp
  ultimately show ?case using e l by simp
qed

lemma discoverTables_keys:
  "map table_key (fst (discoverTables lc sig m c))
     = sort_by (\<lambda>a b. lc (snd a) (snd b))
         (map (\<lambda>n. (toSnakeCase n, formatDisplayName n)) (filter (introspectable m) (findTableTypes m)))"
proof -
  obtain tables c' where l: "tables_loop sig m c (findTableTypes m) = (tables, c')"
    by (cases "tables_loop sig m c (findTableTypes m)")
  have "map table_key (sort_by (\<lambda>a b. lc (TableMetadata.displayName a) (TableMetadata.displayName b)) tables)
      = sort_by (\<lambda>a b. lc (snd a) (snd b)) (map table_key tables)"
    by (rule sort_by_map) (simp add: table_key_def)
  then show ?thesis
    using l tables_loop_keys[of sig m c "findTableTypes m"] by (simp add: discoverTables_def)
qed

lemma reducer_entry_key:
  "map reducer_key (case fst (reducer_entry gen sig m st n) of Some e \<Rightarrow> [e] | None \<Rightarrow> [])
     = (if introspectable m n then [(toSnakeCase n, categorizeItem n, formatDisplayName n)] else [])"
  by (auto simp: reducer_entry_def introspectable_def reducer_key_def
      split: option.splits accessor.splits prod.splits)

lemma reducers_loop_keys:
  "map reducer_key (fst (reducers_loop gen sig m st ns))
     = map (\<lambda>n. (toSnakeCase n, categorizeItem n, formatDisplayName n)) (filter (introspectable m) ns)"
proof (induction ns arbitrary: st)
  case Nil
  then show ?case by simp
next
  case (Cons n ns)
  obtain entry st1 where e: "reducer_entry gen sig m st n = (entry, st1)"
    by (cases "reducer_entry gen sig m st n")
  obtain entries st2 where l: "reducers_loop gen sig m st1 ns = (entries, st2)"
    by (cases "reducers_loop gen sig m st1 ns")
  have "map reducer_key (case entry of Some e \<Rightarrow> [e] | None \<Rightarrow> [])
     = (if introspectable m n then [(toSnakeCase n, categorizeItem n, formatDisplayName n)] else [])"
    using reducer_entry_key[of gen sig m st n] e by simp
  moreover have "map reducer_key entries
     = map (\<lambda>n. (toSnakeCase n, categorizeItem n, formatDisplayName n)) (filter (introspectable m) ns)"
    using Cons.IH[of st1] l by simp
  ultimately show ?case using e l by simp
qed

lemma discoverReducers_keys:
  "map reducer_key (fst (discoverReducers lc gen sig m st))
     = sort_by (\<lambda>a b. if fst (snd a) \<noteq> fst (snd b) then lc (fst (snd a)) (fst (snd b))
                       else lc (snd (snd a)) (snd (snd b)))
         (map (\<lambda>n. (toSnakeCase n, categorizeItem n, formatDisplayName n))
            (filter (introspectable m) (findReducerTypes m)))"
proof -
  obtain rs st' where l: "reducers_loop gen sig m st (findReducerTypes m) = (rs, st')"
    by (cases "reducers_loop gen sig m st (findReducerTypes m)")
  have "map reducer_key (sort_by (compare_reducers lc) rs)
      = sort_by (\<lambda>a b. if fst (snd a) \<noteq> fst (snd b) then lc (fst (snd a)) (fst (snd b))
                       else lc (snd (snd a)) (snd (snd b))) (map reducer_key rs)"
    by (rule sort_by_map) (simp add: reducer_key_def compare_reducers_def)
  then show ?thesis
    using l reducers_loop_keys[of gen sig m st "findReducerTypes m"]
    by (simp add: discoverReducers_def)
qed

text \<open>
  Claim C7. For an unchanged generated module, two successive calls of \<open>discoverTables\<close>
  (the second starting from the analyzer cache the first one left) return catalogs of
  equal length with the same set of names, and so do two successive calls of
  \<open>discoverReducers\<close>. The names and the sort keys (display name for tables; category and
  display name for reducers) even agree position by position, so no two entries are
  ordered differently, with equal sort keys or not.
\<close>

theorem discovery_is_repeatable:
  "(case discoverTables lc sig m c0 of
      (t1, c1) \<Rightarrow>
        (case discoverTables lc sig m c1 of
           (t2, c2) \<Rightarrow>
             length t1 = length t2
             \<and> set (map TableMetadata.name t1) = set (map TableMetadata.name t2)
             \<and> map TableMetadata.name t1 = map TableMetadata.name t2
             \<and> map TableMetadata.displayName t1 = map TableMetadata.displayName t2))
   \<and> (case discoverReducers lc gen sig m st0 of
        (r1, st1) \<Rightarrow>
          (case discoverReducers lc gen sig m st1 of
             (r2, st2) \<Rightarrow>
               length r1 = length r2
               \<and> set (map ReducerMetadata.name r1) = set (map ReducerMetadata.name r2)
               \<and> map ReducerMetadata.name r1 = map ReducerMetadata.name r2
               \<and> map ReducerMetadata.category r1 = map ReducerMetadata.category r2
               \<and> map ReducerMetadata.displayName r1 = map ReducerMetadata.displayName r2))"
proof -
  obtain t1 c1 where d1: "discoverTables lc sig m c0 = (t1, c1)"
    by (cases "discoverTables lc sig m c0")
  obtain t2 c2 where d2: "discoverTables lc sig m c1 = (t2, c2)"
    by (cases "discoverTables lc sig m c1")
  have tk: "map table_key t1 = map table_key t2"
    using discoverTables_keys[of lc sig m c0] discoverTables_keys[of lc sig m c1] d1 d2 by simp
  have t_name: "map TableMetadata.name t1 = map TableMetadata.name t2"
    using arg_cong[OF tk, of "map fst"] by (simp add: table_key_def comp_def)
  have t_disp: "map TableMetadata.displayName t1 = map TableMetadata.displayName t2"
    using arg_cong[OF tk, of "map snd"] by (simp add: table_key_def comp_def)
  have t_len: "length t1 = length t2"
    using arg_cong[OF tk, of length] by simp
  obtain r1 st1 where e1: "discoverReducers lc gen sig m st0 = (r1, st1)"
    by (cases "discoverReducers lc gen sig m st0")
  obtain r2 st2 where e2: "discoverReducers lc gen sig m st1 = (r2, st2)"
    by (cases "discoverReducers lc gen sig m st1")
  have rk: "map reducer_key r1 = map reducer_key r2"
    using discoverReducers_keys[of lc gen sig m st0] discoverReducers_keys[of lc gen sig m st1] e1 e2
    by simp
  have r_name: "map ReducerMetadata.name r1 = map ReducerMetadata.name r2"
    using arg_cong[OF rk, of "map fst"] by (simp add: reducer_key_def comp_def)
  have r_cat: "map ReducerMetadata.category r1 = map ReducerMetadata.category r2"
    using arg_cong[OF rk, of "map (fst \<circ> snd)"] by (simp add: reducer_key_def comp_def)
  have r_disp: "map ReducerMetadata.displayName r1 = map ReducerMetadata.displayName r2"
    using arg_cong[OF rk, of "map (snd \<circ> snd)"] by (simp add: reducer_key_def comp_def)
  have r_len: "length r1 = length r2"
    using arg_cong[OF rk, of length] by simp
  have t_set: "set (map TableMetadata.name t1) = set (map TableMetadata.name t2)"
    by (rule arg_cong[OF t_name])
  have r_set: "set (map ReducerMetadata.name r1) = set (map ReducerMetadata.name r2)"
    by (rule arg_cong[OF r_name])
  show ?thesis
    using d1 d2 e1 e2 t_name t_disp t_len t_set r_name r_cat r_disp r_len r_set
    by (simp del: set_map)
qed

lemma example_tables_found:
  "map TableMetadata.name (fst (discoverTables compare_strings render example_module no_cache))
   = [''auth_event'', ''user'']"
  by code_simp

lemma example_reducers_found:
  "map ReducerMetadata.name
     (fst (discoverReducers compare_strings counting_examples render example_module (no_cache, 0)))
   = [''set_nickname'', ''ban_user'']"
  by code_simp

theorem discovery_is_repeatable_witness:
  "map TableMetadata.name (fst (discoverTables compare_strings render example_module no_cache))
     = [''auth_event'', ''user'']
   \<and> map TableMetadata.name
        (fst (discoverTables compare_strings render example_module
               (snd (discoverTables compare_strings render example_module no_cache))))
     = [''auth_event'', ''user'']
   \<and> map ReducerMetadata.name
        (fst (discoverReducers compare_strings counting_examples render example_module (no_cache, 0)))
     = [''set_nickname'', ''ban_user'']
   \<and> map ReducerMetadata.name
        (fst (discoverReducers compare_strings counting_examples render example_module
               (snd (discoverReducers compare_strings counting_examples render example_module
                       (no_cache, 0)))))
     = [''set_nickname'', ''ban_user'']"
  using discovery_is_repeatable[of compare_strings render example_module no_cache
      counting_examples "(no_cache, 0)"]
    example_tables_found example_reducers_found
  by (simp add: case_prod_beta del: set_map)

end

